theory Spec2Isabelle
  imports Complex_Main "HOL-Library.Multiset"
begin

section \<open>Numbers\<close>

text \<open>
  The route handlers compute with JavaScript numbers. They are modelled by \<^typ>\<open>real\<close>:
  a number is the real value it stands for, and an absent value
  (\<^verbatim>\<open>undefined\<close>, \<^verbatim>\<open>null\<close>) is \<^const>\<open>None\<close>. The arithmetic of the AGB
  handlers is taken exact. In \<^verbatim>\<open>processAreaStatistics\<close> a \<^verbatim>\<open>Math.round\<close> meets products that
  sit next to a tie, where the rounding of the double decides the result: there the
  division and the multiplication are the rounded ones (\<open>div_double\<close>, \<open>mul_double\<close>).
\<close>

text \<open>\<^verbatim>\<open>parseFloat(x.toFixed(f))\<close>: the nearest number with \<open>f\<close> decimals, the larger
  one on a tie, the sign handled apart; from \<^verbatim>\<open>1e21\<close> on \<^verbatim>\<open>toFixed\<close> prints the number itself.\<close>

definition toFixed :: "nat \<Rightarrow> real \<Rightarrow> real" where
  "toFixed f x =
     (if 10 ^ 21 \<le> \<bar>x\<bar> then x
      else if x < 0 then - (of_int \<lfloor>(- x) * 10 ^ f + 1 / 2\<rfloor> / 10 ^ f)
      else of_int \<lfloor>x * 10 ^ f + 1 / 2\<rfloor> / 10 ^ f)"

text \<open>\<^verbatim>\<open>Math.round(x)\<close>: the nearest integer, the larger one on a tie.\<close>

definition Math_round :: "real \<Rightarrow> real" where
  "Math_round x = of_int \<lfloor>x + 1 / 2\<rfloor>"

text \<open>
  The double nearest to a real number (IEEE 754 binary64, round to nearest, ties to the even
  significand). \<open>exponent x\<close> is the binary exponent of a positive number, the \<open>e\<close> with
  \<open>2 powi e \<le> x < 2 powi (e + 1)\<close>, found by doubling or halving. The number is cut to 53
  significant bits at its exponent, and to multiples of \<open>2 powi (- 1074)\<close> below the normal
  range. Numbers beyond the largest double (about \<^verbatim>\<open>1.8e308\<close>) become \<^verbatim>\<open>Infinity\<close> in the
  code and are outside the model.
\<close>

definition round_half_even :: "real \<Rightarrow> int" where
  "round_half_even x =
     (let f = \<lfloor>x\<rfloor>; d = x - of_int f in
      if d < 1 / 2 then f else if 1 / 2 < d then f + 1 else if even f then f else f + 1)"

function exponent :: "real \<Rightarrow> int" where
  "exponent x =
     (if x \<le> 0 then 0
      else if x < 1 then exponent (2 * x) - 1
      else if 2 \<le> x then exponent (x / 2) + 1
      else 0)"
  by pat_completeness auto
termination
proof (relation "measure (\<lambda>x. nat \<bar>\<lfloor>log 2 x\<rfloor>\<bar>)")
  show "wf (measure (\<lambda>x. nat \<bar>\<lfloor>log 2 x\<rfloor>\<bar>))" by simp
next
  fix x :: real
  assume a: "\<not> x \<le> 0" "x < 1"
  then have "log 2 (2 * x) = 1 + log 2 x" by (simp add: log_mult)
  then have "\<lfloor>log 2 (2 * x)\<rfloor> = \<lfloor>log 2 x\<rfloor> + 1" by simp
  moreover from a have "log 2 x < 0" by simp
  then have "\<lfloor>log 2 x\<rfloor> \<le> - 1" by linarith
  ultimately show "(2 * x, x) \<in> measure (\<lambda>x. nat \<bar>\<lfloor>log 2 x\<rfloor>\<bar>)" by simp
next
  fix x :: real
  assume a: "\<not> x \<le> 0" "\<not> x < 1" "2 \<le> x"
  then have "log 2 (x / 2) = log 2 x - 1" by (simp add: log_divide)
  then have "\<lfloor>log 2 (x / 2)\<rfloor> = \<lfloor>log 2 x\<rfloor> - 1" by simp
  moreover from a have "1 \<le> log 2 x" by simp
  then have "1 \<le> \<lfloor>log 2 x\<rfloor>" by linarith
  ultimately show "(x / 2, x) \<in> measure (\<lambda>x. nat \<bar>\<lfloor>log 2 x\<rfloor>\<bar>)" by simp
qed

definition to_double :: "real \<Rightarrow> real" where
  "to_double x =
     (if x = 0 then 0
      else (let e = max (exponent \<bar>x\<bar>) (- 1022);
                ulp = 2 powi (e - 52) in
            of_int (round_half_even (x / ulp)) * ulp))"

text \<open>\<^verbatim>\<open>a / b\<close> and \<^verbatim>\<open>a * b\<close> on doubles: the exact result, rounded to a double.\<close>

definition div_double :: "real \<Rightarrow> real \<Rightarrow> real" where
  "div_double a b = to_double (a / b)"

definition mul_double :: "real \<Rightarrow> real \<Rightarrow> real" where
  "mul_double a b = to_double (a * b)"

text \<open>\<^verbatim>\<open>Math.ceil(a / b)\<close> for natural numbers.\<close>

definition Math_ceil_div :: "nat \<Rightarrow> nat \<Rightarrow> nat" where
  "Math_ceil_div a b = (a + b - 1) div b"

text \<open>\<^verbatim>\<open>v || 0\<close> on a number that may be absent: an absent value becomes 0 (and the
  number 0 stays 0).\<close>

definition or_zero :: "real option \<Rightarrow> real" where
  "or_zero v = (case v of None \<Rightarrow> 0 | Some x \<Rightarrow> x)"

section \<open>Errors\<close>

text \<open>
  Every \<^verbatim>\<open>throw\<close> and every rejected promise is a value. \<open>DataUnavailable m t\<close> is
  \<^verbatim>\<open>new Error(`No satellite data found within ${maxMonthsSearch} months of ${targetDate}`)\<close>,
  \<open>NoDynamicWorldData\<close> the error of the land-cover route, \<open>TypeError\<close> the reading of a
  property of \<^verbatim>\<open>null\<close> or the call of a binding that is not a function, and
  \<open>RemoteServiceError\<close> whatever the analytics platform reports through a callback's
  \<^verbatim>\<open>error\<close> argument.
\<close>

datatype error =
    DataUnavailable nat int
  | NoDynamicWorldData
  | TypeError
  | RemoteServiceError string

section \<open>The analytics platform: images and band algebra\<close>

text \<open>
  The handlers build expression graphs that the platform evaluates. The operators they call
  are modelled by what they compute per pixel: an image is a set of named bands, a band
  gives each pixel a value or nothing (a masked pixel). Selecting a band the image does not
  have is an error of the platform.
\<close>

type_synonym pixel = nat
type_synonym raster = "pixel \<Rightarrow> real option"
type_synonym image = "string \<rightharpoonup> raster"

definition select :: "image \<Rightarrow> string \<Rightarrow> error + raster" where
  "select img b =
     (case img b of
        None \<Rightarrow> Inl (RemoteServiceError (''Image.select: no band '' @ b))
      | Some r \<Rightarrow> Inr r)"

text \<open>\<^verbatim>\<open>img.select([b1, ..., bn])\<close>.\<close>

definition select_bands :: "image \<Rightarrow> string list \<Rightarrow> error + image" where
  "select_bands img bs =
     (case filter (\<lambda>b. img b = None) bs of
        [] \<Rightarrow> Inr (img |` set bs)
      | b # _ \<Rightarrow> Inl (RemoteServiceError (''Image.select: no band '' @ b)))"

text \<open>\<^verbatim>\<open>a.addBands(b)\<close>, for images whose band names differ, as they do in every call of
  the handlers.\<close>

definition addBands :: "image \<Rightarrow> image \<Rightarrow> image" where
  "addBands a b = a ++ b"

text \<open>\<^verbatim>\<open>img.clamp(lo, hi)\<close>: every value of every band is moved into \<open>[lo, hi]\<close>; a masked
  pixel stays masked.\<close>

definition clamp_value :: "real \<Rightarrow> real \<Rightarrow> real \<Rightarrow> real" where
  "clamp_value lo hi v = max lo (min hi v)"

definition clamp :: "real \<Rightarrow> real \<Rightarrow> image \<Rightarrow> image" where
  "clamp lo hi img = (\<lambda>b. map_option (\<lambda>r p. map_option (clamp_value lo hi) (r p)) (img b))"

text \<open>\<^verbatim>\<open>img.rename(b)\<close> of a single band.\<close>

definition rename :: "string \<Rightarrow> raster \<Rightarrow> image" where
  "rename b r = [b \<mapsto> r]"

text \<open>
  \<^verbatim>\<open>img.expression(text, map)\<close>: the parsed text is a term over named operands, each a
  number or a band; the value at a pixel is the value of the term there, and the pixel is
  masked when a band it reads is masked. A name without an operand is an error.
\<close>

datatype expr = Var string | Add expr expr | Mul expr expr

datatype operand = Scalar real | Band raster

fun vars :: "expr \<Rightarrow> string list" where
  "vars (Var x) = [x]"
| "vars (Add a b) = vars a @ vars b"
| "vars (Mul a b) = vars a @ vars b"

fun eval_expr :: "(string \<rightharpoonup> operand) \<Rightarrow> pixel \<Rightarrow> expr \<Rightarrow> real option" where
  "eval_expr env p (Var x) =
     (case env x of None \<Rightarrow> None | Some (Scalar c) \<Rightarrow> Some c | Some (Band r) \<Rightarrow> r p)"
| "eval_expr env p (Add a b) =
     (case (eval_expr env p a, eval_expr env p b) of
        (Some u, Some v) \<Rightarrow> Some (u + v)
      | _ \<Rightarrow> None)"
| "eval_expr env p (Mul a b) =
     (case (eval_expr env p a, eval_expr env p b) of
        (Some u, Some v) \<Rightarrow> Some (u * v)
      | _ \<Rightarrow> None)"

definition expression :: "expr \<Rightarrow> (string \<times> (error + operand)) list \<Rightarrow> error + raster" where
  "expression e operands =
     (case [err. (_, Inl err) \<leftarrow> operands] of
        err # _ \<Rightarrow> Inl err
      | [] \<Rightarrow>
          (let env = map_of [(x, v). (x, Inr v) \<leftarrow> operands] in
           case filter (\<lambda>x. env x = None) (vars e) of
             [] \<Rightarrow> Inr (\<lambda>p. eval_expr env p e)
           | x # _ \<Rightarrow> Inl (RemoteServiceError (''Image.expression: unknown '' @ x))))"

section \<open>The AGB regression (route.ts)\<close>

record coefficients =
  intercept :: real
  ndvi :: real
  evi :: real
  vh :: real
  rvi :: real
  canopyHeight :: real

definition REGRESSION_COEFFICIENTS :: coefficients where
  "REGRESSION_COEFFICIENTS =
     \<lparr>intercept = - 150, ndvi = 200, evi = 150, vh = - 20, rvi = 50, canopyHeight = 15\<rparr>"

text \<open>The two expression texts of \<^verbatim>\<open>calculateAGB\<close>, parsed (\<^verbatim>\<open>+\<close> associates to the left).\<close>

definition reduced_model_expr :: expr where
  "reduced_model_expr =
     Add (Add (Add (Add (Var ''intercept'')
       (Mul (Var ''ndvi_coef'') (Var ''NDVI'')))
       (Mul (Var ''evi_coef'') (Var ''EVI'')))
       (Mul (Var ''vh_coef'') (Var ''VH'')))
       (Mul (Var ''rvi_coef'') (Var ''RVI''))"

definition full_model_expr :: expr where
  "full_model_expr = Add reduced_model_expr (Mul (Var ''ch_coef'') (Var ''CanopyHeight''))"

definition scalar :: "real \<Rightarrow> error + operand" where
  "scalar c = Inr (Scalar c)"

definition band :: "image \<Rightarrow> string \<Rightarrow> error + operand" where
  "band img b = map_sum id Band (select img b)"

text \<open>The local \<^verbatim>\<open>agb\<close> of \<^verbatim>\<open>calculateAGB\<close>: the regression before it is renamed and clamped.\<close>

definition agb_regression :: "image \<Rightarrow> bool \<Rightarrow> error + raster" where
  "agb_regression harmonizedImage hasCanopyHeight =
     (let k = REGRESSION_COEFFICIENTS in
      if hasCanopyHeight then
        expression full_model_expr
          [(''intercept'', scalar (intercept k)),
           (''ndvi_coef'', scalar (coefficients.ndvi k)),
           (''evi_coef'', scalar (coefficients.evi k)),
           (''vh_coef'', scalar (coefficients.vh k)),
           (''rvi_coef'', scalar (coefficients.rvi k)),
           (''ch_coef'', scalar (coefficients.canopyHeight k)),
           (''NDVI'', band harmonizedImage ''NDVI''),
           (''EVI'', band harmonizedImage ''EVI''),
           (''VH'', band harmonizedImage ''VH''),
           (''RVI'', band harmonizedImage ''RVI''),
           (''CanopyHeight'', band harmonizedImage ''CanopyHeight'')]
      else
        expression reduced_model_expr
          [(''intercept'', scalar (intercept k)),
           (''ndvi_coef'', scalar (coefficients.ndvi k)),
           (''evi_coef'', scalar (coefficients.evi k)),
           (''vh_coef'', scalar (coefficients.vh k)),
           (''rvi_coef'', scalar (coefficients.rvi k)),
           (''NDVI'', band harmonizedImage ''NDVI''),
           (''EVI'', band harmonizedImage ''EVI''),
           (''VH'', band harmonizedImage ''VH''),
           (''RVI'', band harmonizedImage ''RVI'')])"

definition calculateAGB :: "image \<Rightarrow> bool \<Rightarrow> error + image" where
  "calculateAGB harmonizedImage hasCanopyHeight =
     (case agb_regression harmonizedImage hasCanopyHeight of
        Inl err \<Rightarrow> Inl err
      | Inr agb \<Rightarrow> Inr (clamp 0 500 (rename ''AGB'' agb)))"

section \<open>The analytics platform: collections, reductions and map tiles\<close>

text \<open>
  A date is the millisecond timestamp \<^verbatim>\<open>new Date(s).getTime()\<close> of the request's string
  (a string that is not a date is left out of the model);
  \<open>iso_day\<close> is the calendar day of \<^verbatim>\<open>d.toISOString().split('T')[0]\<close>, the day in UTC,
  counted in days since the epoch.
\<close>

type_synonym timestamp = int
type_synonym day = int
type_synonym geometry = "(real \<times> real) list list"

definition msPerDay :: int where
  "msPerDay = 1000 * 60 * 60 * 24"

definition iso_day :: "timestamp \<Rightarrow> day" where
  "iso_day t = t div msPerDay"

record vis_params =
  vis_min :: real
  vis_max :: real
  palette :: "string list"

record mapId =
  urlFormat :: "string option"
  url :: "string option"

text \<open>
  What the platform answers, as a function of the query. The three collections are the
  filtered ones the handlers build (Sentinel-2 under 30 percent cloud cover, Sentinel-1 IW
  descending with both polarisations, GEDI good-quality shots) over a polygon and the days
  \<open>[start, end)\<close>; \<open>*_size\<close> is \<^verbatim>\<open>collection.size().evaluate\<close>, which may report an
  error; \<open>*_composite\<close> is the clipped median with the handler's derived bands, or the
  error with which fetching it failed.
  \<open>region_pixels\<close> lists the pixels a region reduction reads at its scale, each with
  its weight; \<open>reduce_error\<close> is the error a reduction of a band may report. A failed
  \<^verbatim>\<open>ensureInitialized\<close> is one of the errors these answers carry. The platform answers the
  same query with the same value.

  The last field is not the platform's but the server's: the time zone of its clock, as the
  language standard's \<^verbatim>\<open>LocalTZA(t, isUTC)\<close>, the offset of local time from UTC in
  milliseconds, at the UTC instant \<open>t\<close> when \<open>isUTC\<close> holds and at the local time \<open>t\<close>
  otherwise.
\<close>

record remote =
  s2_size :: "geometry \<Rightarrow> day \<Rightarrow> day \<Rightarrow> error + nat"
  s2_composite :: "geometry \<Rightarrow> day \<Rightarrow> day \<Rightarrow> error + image"
  s1_size :: "geometry \<Rightarrow> day \<Rightarrow> day \<Rightarrow> error + nat"
  s1_composite :: "geometry \<Rightarrow> day \<Rightarrow> day \<Rightarrow> error + image"
  gedi_canopy :: "geometry \<Rightarrow> day \<Rightarrow> day \<Rightarrow> error + image"
  gedi_size :: "geometry \<Rightarrow> day \<Rightarrow> day \<Rightarrow> error + nat"
  resample_reproject :: "nat \<Rightarrow> raster \<Rightarrow> raster"
  polygon_area :: "geometry \<Rightarrow> error + real"
  region_pixels :: "geometry \<Rightarrow> (pixel \<times> real) list"
  reduce_error :: "geometry \<Rightarrow> string \<Rightarrow> error option"
  getMap :: "image \<Rightarrow> vis_params \<Rightarrow> error + mapId option"
  LocalTZA :: "timestamp \<Rightarrow> bool \<Rightarrow> int"

text \<open>
  \<^verbatim>\<open>d.getDate()\<close> reads the day of the month of the local time of \<open>d\<close>, and
  \<^verbatim>\<open>d.setDate(n)\<close> puts day \<open>n\<close> of that month (counted on into the neighbouring months)
  with the local time of day of \<open>d\<close>, and converts the local time it gets back to UTC. So
  \<^verbatim>\<open>d.setDate(d.getDate() + k)\<close> moves the local time of \<open>d\<close> by \<open>k\<close> whole days.
\<close>

definition LocalTime :: "remote \<Rightarrow> timestamp \<Rightarrow> timestamp" where
  "LocalTime rs t = t + LocalTZA rs t True"

definition UTC :: "remote \<Rightarrow> timestamp \<Rightarrow> timestamp" where
  "UTC rs t = t - LocalTZA rs t False"

definition setDate_plus :: "remote \<Rightarrow> timestamp \<Rightarrow> int \<Rightarrow> timestamp" where
  "setDate_plus rs d k = UTC rs (LocalTime rs d + k * msPerDay)"

text \<open>\<^verbatim>\<open>img.resample('bilinear').reproject({crs, scale})\<close>: band by band.\<close>

definition resample :: "remote \<Rightarrow> nat \<Rightarrow> image \<Rightarrow> image" where
  "resample rs scale img = (\<lambda>b. map_option (resample_reproject rs scale) (img b))"

text \<open>
  \<^verbatim>\<open>band.reduceRegion\<close> with the mean, min/max and standard-deviation reducers. Only the
  unmasked pixels of positive weight contribute; the mean and the deviation are weighted.
  With no contributing pixel every entry of the result is \<^verbatim>\<open>null\<close>.
\<close>

definition contributing :: "raster \<Rightarrow> (pixel \<times> real) list \<Rightarrow> (real \<times> real) list" where
  "contributing r region =
     List.map_filter (\<lambda>(p, w). if 0 < w then map_option (\<lambda>v. (w, v)) (r p) else None) region"

definition weighted_mean :: "(real \<times> real) list \<Rightarrow> real" where
  "weighted_mean c = sum_list (map (\<lambda>(w, v). w * v) c) / sum_list (map fst c)"

definition weighted_stdDev :: "(real \<times> real) list \<Rightarrow> real" where
  "weighted_stdDev c =
     sqrt (sum_list (map (\<lambda>(w, v). w * (v - weighted_mean c)\<^sup>2) c) / sum_list (map fst c))"

definition reduceRegion :: "raster \<Rightarrow> string \<Rightarrow> (pixel \<times> real) list \<Rightarrow> (string \<rightharpoonup> real)" where
  "reduceRegion r bandName region =
     (let c = contributing r region in
      if c = [] then Map.empty
      else [bandName @ ''_mean'' \<mapsto> weighted_mean c,
            bandName @ ''_min'' \<mapsto> Min (set (map snd c)),
            bandName @ ''_max'' \<mapsto> Max (set (map snd c)),
            bandName @ ''_stdDev'' \<mapsto> weighted_stdDev c])"

section \<open>Region statistics (route.ts)\<close>

record metric =
  mean :: real
  min_v :: real
  max_v :: real

record stats = metric +
  stdDev :: real

definition calculateImageStatistics :: "remote \<Rightarrow> image \<Rightarrow> string \<Rightarrow> geometry \<Rightarrow> error + stats" where
  "calculateImageStatistics rs img bandName geometry =
     (case select img bandName of
        Inl err \<Rightarrow> Inl err
      | Inr r \<Rightarrow>
          (case reduce_error rs geometry bandName of
             Some err \<Rightarrow> Inl err
           | None \<Rightarrow>
               (let result = reduceRegion r bandName (region_pixels rs geometry) in
                Inr \<lparr>mean = or_zero (result (bandName @ ''_mean'')),
                     min_v = or_zero (result (bandName @ ''_min'')),
                     max_v = or_zero (result (bandName @ ''_max'')),
                     stdDev = or_zero (result (bandName @ ''_stdDev''))\<rparr>)))"

section \<open>Tile URL (route.ts)\<close>

text \<open>\<^verbatim>\<open>a || b\<close> on strings (the empty string counts as absent), \<^verbatim>\<open>s.includes(t)\<close>
  and \<^verbatim>\<open>s.replace(/\/$/, '')\<close>.\<close>

definition str_or :: "string option \<Rightarrow> string \<Rightarrow> string" where
  "str_or a b = (case a of None \<Rightarrow> b | Some s \<Rightarrow> if s = [] then b else s)"

fun includes_str :: "string \<Rightarrow> string \<Rightarrow> bool" where
  "includes_str [] t = (t = [])"
| "includes_str (c # cs) t = (take (length t) (c # cs) = t \<or> includes_str cs t)"

definition strip_trailing_slash :: "string \<Rightarrow> string" where
  "strip_trailing_slash s = (if s \<noteq> [] \<and> last s = CHR ''/'' then butlast s else s)"

definition getVisualizationUrl :: "remote \<Rightarrow> image \<Rightarrow> vis_params \<Rightarrow> error + string" where
  "getVisualizationUrl rs img visParams =
     (case getMap rs img visParams of
        Inl err \<Rightarrow> Inl err
      | Inr None \<Rightarrow> Inl (RemoteServiceError ''Failed to get valid map URL'')
      | Inr (Some m) \<Rightarrow>
          (let u = str_or (urlFormat m) (str_or (url m) []) in
           if includes_str u ''{z}'' then Inr u
           else Inr (strip_trailing_slash u @ ''/{z}/{x}/{y}'')))"

section \<open>The adaptive window search (route.ts)\<close>

record data_window =
  startDate :: day
  endDate :: day
  monthsUsed :: nat

text \<open>The two day strings of the loop body of \<^verbatim>\<open>findClosestDataWindow\<close>, for the value
  \<open>weeksWindow\<close> of its counter: the target moved by that many weeks of local days, printed
  in UTC.\<close>

definition startStr :: "remote \<Rightarrow> timestamp \<Rightarrow> nat \<Rightarrow> day" where
  "startStr rs targetDate weeksWindow =
     iso_day (setDate_plus rs targetDate (- (int weeksWindow * 7)))"

definition endStr :: "remote \<Rightarrow> timestamp \<Rightarrow> nat \<Rightarrow> day" where
  "endStr rs targetDate weeksWindow =
     iso_day (setDate_plus rs targetDate (int weeksWindow * 7))"

text \<open>The \<^verbatim>\<open>for\<close> loop of \<^verbatim>\<open>findClosestDataWindow\<close>, from the value \<open>weeksWindow\<close> of its
  counter on.\<close>

function findClosestDataWindow_loop ::
  "remote \<Rightarrow> geometry \<Rightarrow> timestamp \<Rightarrow> nat \<Rightarrow> nat \<Rightarrow> error + data_window" where
  "findClosestDataWindow_loop rs geometry targetDate maxMonthsSearch weeksWindow =
     (if weeksWindow \<le> maxMonthsSearch * 4 then
        (let s = startStr rs targetDate weeksWindow;
             e = endStr rs targetDate weeksWindow in
         case s2_size rs geometry s e of
           Inl err \<Rightarrow> Inl err
         | Inr sz \<Rightarrow>
             if sz > 0 then
               Inr \<lparr>startDate = s, endDate = e,
                    monthsUsed = Math_ceil_div weeksWindow 4\<rparr>
             else findClosestDataWindow_loop rs geometry targetDate maxMonthsSearch (weeksWindow + 1))
      else Inl (DataUnavailable maxMonthsSearch targetDate))"
  by pat_completeness auto
termination
  by (relation "measure (\<lambda>(rs, geometry, targetDate, maxMonthsSearch, weeksWindow).
        maxMonthsSearch * 4 + 1 - weeksWindow)") auto

definition findClosestDataWindow ::
  "remote \<Rightarrow> geometry \<Rightarrow> timestamp \<Rightarrow> nat \<Rightarrow> error + data_window" where
  "findClosestDataWindow rs geometry targetDate maxMonthsSearch =
     findClosestDataWindow_loop rs geometry targetDate maxMonthsSearch 1"

section \<open>Harmonization (route.ts)\<close>

definition harmonizeResolution ::
  "remote \<Rightarrow> image \<Rightarrow> image \<Rightarrow> image option \<Rightarrow> nat \<Rightarrow> bool \<Rightarrow> error + image" where
  "harmonizeResolution rs s2Image s1Image gediImage targetResolution hasCanopyHeight =
     (let s1Resampled = resample rs targetResolution s1Image in
      case select_bands s2Image [''NDVI'', ''EVI'', ''LAI''] of
        Inl err \<Rightarrow> Inl err
      | Inr s2Bands \<Rightarrow>
          (case select_bands s1Resampled [''VV'', ''VH'', ''RVI''] of
             Inl err \<Rightarrow> Inl err
           | Inr s1Bands \<Rightarrow>
               (let combined = addBands s2Bands s1Bands in
                case (hasCanopyHeight, gediImage) of
                  (True, Some g) \<Rightarrow>
                    (case select_bands (resample rs targetResolution g) [''CanopyHeight''] of
                       Inl err \<Rightarrow> Inl err
                     | Inr chBand \<Rightarrow> Inr (addBands combined chBand))
                | _ \<Rightarrow> Inr combined)))"

section \<open>AGB for one date (route.ts)\<close>

text \<open>\<^verbatim>\<open>await\<close>: a rejected promise leaves the function with its error. \<^verbatim>\<open>Promise.all\<close>
  rejects when one of its promises does (here: with the first error in the list's order).\<close>

definition await :: "error + 'a \<Rightarrow> ('a \<Rightarrow> error + 'b) \<Rightarrow> error + 'b" where
  "await r k = (case r of Inl err \<Rightarrow> Inl err | Inr v \<Rightarrow> k v)"

fun Promise_all :: "(error + 'a) list \<Rightarrow> error + 'a list" where
  "Promise_all [] = Inr []"
| "Promise_all (r # rs) =
     (case r of
        Inl err \<Rightarrow> Inl err
      | Inr v \<Rightarrow> (case Promise_all rs of Inl err \<Rightarrow> Inl err | Inr vs \<Rightarrow> Inr (v # vs)))"

record input_metrics =
  ndvi :: metric
  evi :: metric
  lai :: metric
  vh :: metric
  vv :: metric
  rvi :: metric
  canopyHeight :: "metric option"

record data_quality =
  sentinel2Images :: nat
  sentinel1Images :: nat
  gediFootprints :: nat
  temporalRange :: "day \<times> day"

record AGBResult =
  meanAGB :: real
  minAGB :: real
  maxAGB :: real
  stdDevAGB :: real
  totalBiomass :: real
  areaHa :: real
  agbRasterUrl :: string
  inputMetrics :: input_metrics
  dataQuality :: data_quality
  warnings :: "string list"
  actualDateRange :: "day \<times> day"

text \<open>The availability check of step 3 (the \<^verbatim>\<open>try\<close> block): the canopy-height image, whether
  the collection was obtained, \<open>hasCanopyHeight\<close>, and the warnings.\<close>

definition gedi_check ::
  "remote \<Rightarrow> geometry \<Rightarrow> day \<Rightarrow> day \<Rightarrow> image option \<times> bool \<times> bool \<times> string list" where
  "gedi_check rs geometry start_day end_day =
     (case gedi_canopy rs geometry start_day end_day of
        Inl err \<Rightarrow>
          (None, False, False,
           [''GEDI canopy height data unavailable. AGB calculated without canopy height component.''])
      | Inr h \<Rightarrow>
          (case gedi_size rs geometry start_day end_day of
             Inl err \<Rightarrow>
               (Some h, True, False,
                [''GEDI canopy height data unavailable. AGB calculated without canopy height component.''])
           | Inr gediSize \<Rightarrow>
               if gediSize = 0 then
                 (Some h, True, False,
                  [''No GEDI canopy height data available for this location and time period. AGB calculated without canopy height component.''])
               else (Some h, True, True, [])))"

definition round_metric :: "nat \<Rightarrow> stats \<Rightarrow> metric" where
  "round_metric f st =
     \<lparr>mean = toFixed f (mean st), min_v = toFixed f (min_v st), max_v = toFixed f (max_v st)\<rparr>"

text \<open>Steps 1 to 5 of \<^verbatim>\<open>calculateAGBForDate\<close>, up to the AGB image: the values of its
  locals \<^verbatim>\<open>startDate\<close>, \<^verbatim>\<open>endDate\<close>, \<^verbatim>\<open>gediCollection\<close> (whether it is set),
  \<^verbatim>\<open>hasCanopyHeight\<close>, \<^verbatim>\<open>warnings\<close>, \<^verbatim>\<open>harmonizedImage\<close> and \<^verbatim>\<open>agbImage\<close>.\<close>

record agb_layers =
  window :: data_window
  gedi_collection_set :: bool
  has_canopy_height :: bool
  gedi_warnings :: "string list"
  harmonized :: image
  agb_image :: image

definition calculateAGBForDate_layers ::
  "remote \<Rightarrow> geometry \<Rightarrow> timestamp \<Rightarrow> error + agb_layers" where
  "calculateAGBForDate_layers rs geometry targetDate =
     await (findClosestDataWindow rs geometry targetDate 3) (\<lambda>w.
     let start_day = startDate w; end_day = endDate w in
     await (s2_composite rs geometry start_day end_day) (\<lambda>s2Composite.
     await (s1_composite rs geometry start_day end_day) (\<lambda>s1Composite.
     case gedi_check rs geometry start_day end_day of
       (gediHeight, gediCollection, hasCanopyHeight, warns) \<Rightarrow>
     await (harmonizeResolution rs s2Composite s1Composite gediHeight 10 hasCanopyHeight)
       (\<lambda>harmonizedImage.
     await (calculateAGB harmonizedImage hasCanopyHeight) (\<lambda>agbImage.
     Inr \<lparr>window = w, gedi_collection_set = gediCollection,
          has_canopy_height = hasCanopyHeight, gedi_warnings = warns,
          harmonized = harmonizedImage, agb_image = agbImage\<rparr>)))))"

text \<open>Step 6 and the result.\<close>

definition calculateAGBForDate :: "remote \<Rightarrow> geometry \<Rightarrow> timestamp \<Rightarrow> error + AGBResult" where
  "calculateAGBForDate rs geometry targetDate =
     await (calculateAGBForDate_layers rs geometry targetDate) (\<lambda>ls.
     let start_day = startDate (window ls); end_day = endDate (window ls) in
     await (polygon_area rs geometry) (\<lambda>areaM2.
     let area = areaM2 / 10000 in
     await (calculateImageStatistics rs (agb_image ls) ''AGB'' geometry) (\<lambda>agbStats.
     await (Promise_all
        ([calculateImageStatistics rs (harmonized ls) ''NDVI'' geometry,
          calculateImageStatistics rs (harmonized ls) ''EVI'' geometry,
          calculateImageStatistics rs (harmonized ls) ''LAI'' geometry,
          calculateImageStatistics rs (harmonized ls) ''VH'' geometry,
          calculateImageStatistics rs (harmonized ls) ''VV'' geometry,
          calculateImageStatistics rs (harmonized ls) ''RVI'' geometry]
         @ (if has_canopy_height ls
            then [calculateImageStatistics rs (harmonized ls) ''CanopyHeight'' geometry]
            else []))) (\<lambda>metricsResults.
     let chStats = (if has_canopy_height ls then Some (metricsResults ! 6) else None) in
     await (s2_size rs geometry start_day end_day) (\<lambda>s2Count.
     await (s1_size rs geometry start_day end_day) (\<lambda>s1Count.
     await (if has_canopy_height ls \<and> gedi_collection_set ls
            then gedi_size rs geometry start_day end_day else Inr 0) (\<lambda>gediCount.
     await (getVisualizationUrl rs (agb_image ls)
              \<lparr>vis_min = 0, vis_max = 300, palette = [''yellow'', ''green'', ''darkgreen'']\<rparr>)
       (\<lambda>agbUrl.
     let total = mean agbStats * area in
     Inr \<lparr>meanAGB = toFixed 2 (mean agbStats),
          minAGB = toFixed 2 (min_v agbStats),
          maxAGB = toFixed 2 (max_v agbStats),
          stdDevAGB = toFixed 2 (stdDev agbStats),
          totalBiomass = toFixed 2 total,
          areaHa = toFixed 2 area,
          agbRasterUrl = agbUrl,
          inputMetrics =
            \<lparr>ndvi = round_metric 3 (metricsResults ! 0),
             evi = round_metric 3 (metricsResults ! 1),
             lai = round_metric 2 (metricsResults ! 2),
             vh = round_metric 2 (metricsResults ! 3),
             vv = round_metric 2 (metricsResults ! 4),
             rvi = round_metric 3 (metricsResults ! 5),
             canopyHeight = map_option (round_metric 2) chStats\<rparr>,
          dataQuality =
            \<lparr>sentinel2Images = s2Count, sentinel1Images = s1Count,
             gediFootprints = gediCount, temporalRange = (start_day, end_day)\<rparr>,
          warnings = gedi_warnings ls,
          actualDateRange = (start_day, end_day)\<rparr>))))))))"

section \<open>The AGB endpoint (route.ts)\<close>

datatype 'a response = Ok 'a | BadRequest string | ServerError error

record agb_body =
  body_geometry :: "geometry option"
  body_startDate :: "timestamp option"
  body_endDate :: "timestamp option"

record date_report =
  targetDate :: timestamp
  report :: AGBResult

record agb_change =
  meanAGBChange :: real
  percentChange :: real
  totalBiomassChange :: real
  annualAGBChange :: real
  status :: string
  interpretation_text :: string

record time_period =
  durationDays :: int
  durationYears :: real

record agb_response =
  startDate_report :: date_report
  endDate_report :: date_report
  agbChange :: agb_change
  timePeriod :: time_period
  regressionModel :: coefficients

text \<open>The locals of the change analysis, as functions of the two per-date results and of
  the two request dates.\<close>

definition agbChange_of :: "AGBResult \<Rightarrow> AGBResult \<Rightarrow> real" where
  "agbChange_of startAGB endAGB = meanAGB endAGB - meanAGB startAGB"

definition agbChangePercent :: "AGBResult \<Rightarrow> AGBResult \<Rightarrow> real" where
  "agbChangePercent startAGB endAGB =
     (if meanAGB startAGB > 0
      then (agbChange_of startAGB endAGB / meanAGB startAGB) * 100
      else 0)"

definition biomassDifference :: "AGBResult \<Rightarrow> AGBResult \<Rightarrow> real" where
  "biomassDifference startAGB endAGB = totalBiomass endAGB - totalBiomass startAGB"

definition daysDifference :: "timestamp \<Rightarrow> timestamp \<Rightarrow> int" where
  "daysDifference start_t end_t = (end_t - start_t) div (1000 * 60 * 60 * 24)"

definition yearsDifference :: "timestamp \<Rightarrow> timestamp \<Rightarrow> real" where
  "yearsDifference start_t end_t = of_int (daysDifference start_t end_t) / 365.25"

definition annualAGBChange_of :: "AGBResult \<Rightarrow> AGBResult \<Rightarrow> timestamp \<Rightarrow> timestamp \<Rightarrow> real" where
  "annualAGBChange_of startAGB endAGB start_t end_t =
     (if yearsDifference start_t end_t > 0
      then agbChange_of startAGB endAGB / yearsDifference start_t end_t
      else 0)"

definition POST :: "remote \<Rightarrow> agb_body \<Rightarrow> agb_response response" where
  "POST rs body =
     (case (body_geometry body, body_startDate body, body_endDate body) of
        (Some geometry, Some start_t, Some end_t) \<Rightarrow>
          (case Promise_all [calculateAGBForDate rs geometry start_t,
                             calculateAGBForDate rs geometry end_t] of
             Inl err \<Rightarrow> ServerError err
           | Inr results \<Rightarrow>
               (let startAGB = results ! 0; endAGB = results ! 1;
                    change = agbChange_of startAGB endAGB in
                Ok \<lparr>startDate_report = \<lparr>targetDate = start_t, report = startAGB\<rparr>,
                    endDate_report = \<lparr>targetDate = end_t, report = endAGB\<rparr>,
                    agbChange =
                      \<lparr>meanAGBChange = toFixed 2 change,
                       percentChange = toFixed 2 (agbChangePercent startAGB endAGB),
                       totalBiomassChange = toFixed 2 (biomassDifference startAGB endAGB),
                       annualAGBChange =
                         toFixed 2 (annualAGBChange_of startAGB endAGB start_t end_t),
                       status =
                         (if change > 0 then ''Increase''
                          else if change < 0 then ''Decrease'' else ''No Change''),
                       interpretation_text =
                         (if change > 0
                          then ''Forest biomass has increased, indicating growth or afforestation''
                          else if change < 0
                          then ''Forest biomass has decreased, indicating degradation or deforestation''
                          else ''No significant change in forest biomass'')\<rparr>,
                    timePeriod =
                      \<lparr>durationDays = daysDifference start_t end_t,
                       durationYears = toFixed 2 (yearsDifference start_t end_t)\<rparr>,
                    regressionModel = REGRESSION_COEFFICIENTS\<rparr>))
      | _ \<Rightarrow> BadRequest ''Missing required parameters: geometry, startDate, endDate'')"

section \<open>Land-cover classification (the classify route)\<close>

text \<open>
  The images of this route are kept as the expressions the handler builds:
  \<open>DynamicWorldMode s e\<close> is the image
  \<^verbatim>\<open>dynamicWorld.select('label').mode().rename('classification')\<close> of the Dynamic World
  collection over the days from \<open>s\<close> to \<open>e\<close>. The answers of the platform are functions of
  them. \<open>months_before d n\<close> is the day string the handler gets from
  \<^verbatim>\<open>setMonth(getMonth() - n)\<close> on \<^verbatim>\<open>new Date(d)\<close>.
\<close>

datatype landcover_image =
    DynamicWorldMode string string
  | SelectBand string landcover_image

record area_group =
  class_value :: int
  sum_value :: real

record area_stats =
  groups :: "area_group list option"

record classify_env =
  months_before :: "string \<Rightarrow> nat \<Rightarrow> string"
  area_statistics :: "geometry \<Rightarrow> landcover_image \<Rightarrow> error + area_stats option"
  tile_map :: "landcover_image \<Rightarrow> vis_params \<Rightarrow> error + mapId option"

definition LANDCOVER_CLASSES :: "int \<rightharpoonup> string" where
  "LANDCOVER_CLASSES =
     map_of [(10, ''Tree cover''), (20, ''Shrubland''), (30, ''Grassland''), (40, ''Cropland''),
             (50, ''Built-up''), (60, ''Bare / sparse vegetation''), (70, ''Snow and ice''),
             (80, ''Permanent water bodies''), (90, ''Herbaceous wetland''), (95, ''Mangroves''),
             (100, ''Moss and lichen'')]"

definition LANDCOVER_COLORS :: "(int \<times> string) list" where
  "LANDCOVER_COLORS =
     [(10, ''#006400''), (20, ''#ffbb22''), (30, ''#ffff4c''), (40, ''#f096ff''),
      (50, ''#fa0000''), (60, ''#b4b4b4''), (70, ''#f0f0f0''), (80, ''#0064c8''),
      (90, ''#0096a0''), (95, ''#00cf75''), (100, ''#fae6a0'')]"

definition DYNAMIC_WORLD_CLASSES :: "int \<rightharpoonup> string" where
  "DYNAMIC_WORLD_CLASSES =
     map_of [(0, ''Water''), (1, ''Trees''), (2, ''Grass''), (3, ''Flooded vegetation''),
             (4, ''Crops''), (5, ''Shrub and scrub''), (6, ''Built''), (7, ''Bare''),
             (8, ''Snow and ice'')]"

text \<open>The decimal text of an integer, as a template literal prints it.\<close>

fun string_of_nat :: "nat \<Rightarrow> string" where
  "string_of_nat n =
     (if n < 10 then [''0123456789'' ! n]
      else string_of_nat (n div 10) @ [''0123456789'' ! (n mod 10)])"

definition string_of_int :: "int \<Rightarrow> string" where
  "string_of_int i =
     (if i < 0 then CHR ''-'' # string_of_nat (nat (- i)) else string_of_nat (nat i))"

record area_statistic =
  class_id :: int
  className :: string
  areaHectares :: real
  areaSquareMeters :: real

text \<open>\<^verbatim>\<open>processAreaStatistics\<close>: \<open>area_entry\<close> is the function it maps over the groups, in
  the arithmetic of doubles (\<^verbatim>\<open>Math.round\<close> itself is exact).
  \<^verbatim>\<open>Array.prototype.sort\<close> is stable; the comparator \<^verbatim>\<open>b.areaHectares - a.areaHectares\<close>
  has the sign of the exact difference, so it is the stable sort by descending
  \<open>areaHectares\<close>.\<close>

definition area_entry :: "(int \<rightharpoonup> string) \<Rightarrow> area_group \<Rightarrow> area_statistic" where
  "area_entry classes g =
     (let classValue = class_value g;
          areaM2 = sum_value g;
          hectares = div_double areaM2 10000 in
      \<lparr>class_id = classValue,
       className = str_or (classes classValue) (''Class '' @ string_of_int classValue),
       areaHectares = div_double (Math_round (mul_double hectares 100)) 100,
       areaSquareMeters = Math_round areaM2\<rparr>)"

definition processAreaStatistics :: "area_stats \<Rightarrow> (int \<rightharpoonup> string) \<Rightarrow> area_statistic list" where
  "processAreaStatistics stats classes =
     (case groups stats of
        None \<Rightarrow> []
      | Some gs \<Rightarrow> sort_key (\<lambda>a. - areaHectares a) (map (area_entry classes) gs))"

text \<open>\<^verbatim>\<open>calculateAreaStatistics\<close> and \<^verbatim>\<open>getImageUrl\<close> of the Earth Engine library
  (\<^verbatim>\<open>lib/earthEngine\<close>).\<close>

definition calculateAreaStatistics ::
  "classify_env \<Rightarrow> landcover_image \<Rightarrow> geometry \<Rightarrow> error + area_stats option" where
  "calculateAreaStatistics env landcoverImage geometry =
     area_statistics env geometry (SelectBand ''classification'' landcoverImage)"

definition getImageUrl ::
  "classify_env \<Rightarrow> landcover_image \<Rightarrow> geometry \<Rightarrow> vis_params \<Rightarrow> error + string" where
  "getImageUrl env img geometry visParams =
     (case tile_map env img visParams of
        Inl err \<Rightarrow> Inl err
      | Inr None \<Rightarrow> Inl (RemoteServiceError ''Failed to get valid map URL from Earth Engine'')
      | Inr (Some m) \<Rightarrow>
          (let u = str_or (urlFormat m) (str_or (url m) []) in
           if includes_str u ''{z}'' then Inr u
           else Inr (strip_trailing_slash u @ ''/tiles/{z}/{x}/{y}'')))"

record classification =
  source :: string
  model :: string
  year :: "int option"
  classificationDate :: "string option"
  temporalWindow :: "nat option"
  dateRange :: "(string \<times> string) option"
  classes_of :: "int \<rightharpoonup> string"

record classify_body =
  c_geometry :: "geometry option"
  c_year :: "int option"
  c_useDynamicWorld :: "bool option"
  c_startDate :: "string option"
  c_endDate :: "string option"

record classify_response =
  classification_data :: classification
  areaStatistics :: "area_statistic list"
  imageUrl :: string
  confidence :: "(string \<times> string) option"
  aiPowered :: bool

text \<open>
  The route imports \<^verbatim>\<open>getLandCover\<close> from the Earth Engine library. The library exports
  \<^verbatim>\<open>initializeEarthEngine\<close>, \<^verbatim>\<open>ensureInitialized\<close>, \<^verbatim>\<open>getSentinel2Data\<close>,
  \<^verbatim>\<open>calculateNDVI\<close>, \<^verbatim>\<open>calculateEVI\<close>, \<^verbatim>\<open>maskS2Clouds\<close>, \<^verbatim>\<open>calculateLAI\<close>,
  \<^verbatim>\<open>s2Visualizations\<close>, \<^verbatim>\<open>getDynamicWorldLandCover\<close>, \<^verbatim>\<open>checkCollectionSize\<close>,
  \<^verbatim>\<open>calculateAreaStatistics\<close>, \<^verbatim>\<open>getImageUrl\<close> and \<^verbatim>\<open>exportToGeoTiff\<close>, and no
  \<^verbatim>\<open>getLandCover\<close>: the imported binding is \<^verbatim>\<open>undefined\<close>, and the call
  \<^verbatim>\<open>getLandCover(geometry, year)\<close> throws a \<^verbatim>\<open>TypeError\<close>, whatever its arguments.
\<close>

definition getLandCover :: "geometry \<Rightarrow> int \<Rightarrow> error + landcover_image" where
  "getLandCover geometry year_v = Inl TypeError"

text \<open>A request field is truthy when it is present and not the empty string.\<close>

definition truthy :: "string option \<Rightarrow> bool" where
  "truthy v = (case v of None \<Rightarrow> False | Some s \<Rightarrow> s \<noteq> [])"

text \<open>The \<^verbatim>\<open>while\<close> loop of the Dynamic World branch, from the value \<open>monthsToTry\<close> of its
  counter on: the image found, the start of its window and the months used.\<close>

function dynamicWorld_loop ::
  "classify_env \<Rightarrow> geometry \<Rightarrow> string \<Rightarrow> nat \<Rightarrow> nat \<Rightarrow>
     error + (landcover_image \<times> string \<times> nat)" where
  "dynamicWorld_loop env geometry end_str maxMonths monthsToTry =
     (if monthsToTry \<le> maxMonths then
        (let recentStartStr = months_before env end_str monthsToTry;
             testImage = DynamicWorldMode recentStartStr end_str in
         case calculateAreaStatistics env testImage geometry of
           Inl err \<Rightarrow> Inl err
         | Inr testStats \<Rightarrow>
             (case testStats of
                Some st \<Rightarrow>
                  (case groups st of
                     Some (g # gs) \<Rightarrow> Inr (testImage, recentStartStr, monthsToTry)
                   | _ \<Rightarrow> dynamicWorld_loop env geometry end_str maxMonths (monthsToTry + 1))
              | None \<Rightarrow> dynamicWorld_loop env geometry end_str maxMonths (monthsToTry + 1)))
      else Inl NoDynamicWorldData)"
  by pat_completeness auto
termination
  by (relation "measure (\<lambda>(env, geometry, end_str, maxMonths, monthsToTry).
        maxMonths + 1 - monthsToTry)") auto

definition dynamicWorld_vis :: vis_params where
  "dynamicWorld_vis =
     \<lparr>vis_min = 0, vis_max = 8,
      palette = [''419bdf'', ''397d49'', ''88b053'', ''7a87c6'', ''e49635'', ''dfc35a'',
                 ''c4281b'', ''a59b8f'', ''b39fe1'']\<rparr>"

definition worldCover_vis :: vis_params where
  "worldCover_vis = \<lparr>vis_min = 10, vis_max = 100, palette = map snd LANDCOVER_COLORS\<rparr>"

definition POST_classify :: "classify_env \<Rightarrow> classify_body \<Rightarrow> classify_response response" where
  "POST_classify env body =
     (let year_v = (case c_year body of None \<Rightarrow> 2021 | Some y \<Rightarrow> y);
          useDynamicWorld = (case c_useDynamicWorld body of None \<Rightarrow> True | Some u \<Rightarrow> u) in
      case c_geometry body of
        None \<Rightarrow> BadRequest ''Missing required parameter: geometry''
      | Some geometry \<Rightarrow>
          (case
             (if useDynamicWorld \<and> truthy (c_startDate body) \<and> truthy (c_endDate body) then
                (case dynamicWorld_loop env geometry (the (c_endDate body)) 12 1 of
                   Inl err \<Rightarrow> Inl err
                 | Inr (landcoverImage, recentStartStr, actualMonthsUsed) \<Rightarrow>
                     Inr (landcoverImage,
                          \<lparr>source = ''Dynamic World AI Classifier'',
                           model = ''Deep Learning CNN (Convolutional Neural Network)'',
                           year = None,
                           classificationDate = c_endDate body,
                           temporalWindow = Some actualMonthsUsed,
                           dateRange = Some (recentStartStr, the (c_endDate body)),
                           classes_of = DYNAMIC_WORLD_CLASSES\<rparr>,
                          Some (''Dynamic World uses AI to provide pixel-level confidence scores'',
                                ''Temporal ensemble of deep learning predictions'')))
              else
                (case getLandCover geometry year_v of
                   Inl err \<Rightarrow> Inl err
                 | Inr landcover \<Rightarrow>
                     Inr (SelectBand ''Map'' landcover,
                          \<lparr>source = ''ESA WorldCover'',
                           model = ''Random Forest + Deep Learning'',
                           year = Some year_v,
                           classificationDate = None,
                           temporalWindow = None,
                           dateRange = None,
                           classes_of = LANDCOVER_CLASSES\<rparr>,
                          None)))
           of
             Inl err \<Rightarrow> ServerError err
           | Inr (landcoverImage, classificationData, confidenceData) \<Rightarrow>
               (case calculateAreaStatistics env landcoverImage geometry of
                  Inl err \<Rightarrow> ServerError err
                | Inr None \<Rightarrow> ServerError TypeError
                | Inr (Some areaStats) \<Rightarrow>
                    (let processedStats =
                           processAreaStatistics areaStats (classes_of classificationData);
                         visParams = (if useDynamicWorld then dynamicWorld_vis else worldCover_vis) in
                     case getImageUrl env landcoverImage geometry visParams of
                       Inl err \<Rightarrow> ServerError err
                     | Inr u \<Rightarrow>
                         Ok \<lparr>classification_data = classificationData,
                             areaStatistics = processedStats,
                             imageUrl = u,
                             confidence = confidenceData,
                             aiPowered = useDynamicWorld\<rparr>))))"

section \<open>The regression as the specification words it\<close>

text \<open>
  The two equations of the specification (section 4.6), with its published coefficients,
  and their value on the pixels of four or five bands: a pixel masked in one of the bands
  has no value. They are stated apart from the code, to be compared with it.
\<close>

definition spec_reduced_model :: "real \<Rightarrow> real \<Rightarrow> real \<Rightarrow> real \<Rightarrow> real" where
  "spec_reduced_model NDVI EVI VH RVI = - 150 + 200 * NDVI + 150 * EVI + (- 20) * VH + 50 * RVI"

definition spec_full_model :: "real \<Rightarrow> real \<Rightarrow> real \<Rightarrow> real \<Rightarrow> real \<Rightarrow> real" where
  "spec_full_model NDVI EVI VH RVI CanopyHeight =
     - 150 + 200 * NDVI + 150 * EVI + (- 20) * VH + 50 * RVI + 15 * CanopyHeight"

definition spec_reduced_layer :: "raster \<Rightarrow> raster \<Rightarrow> raster \<Rightarrow> raster \<Rightarrow> raster" where
  "spec_reduced_layer a b c d = (\<lambda>p.
     case (a p, b p, c p, d p) of
       (Some n, Some e, Some v, Some r) \<Rightarrow> Some (spec_reduced_model n e v r)
     | _ \<Rightarrow> None)"

definition spec_full_layer :: "raster \<Rightarrow> raster \<Rightarrow> raster \<Rightarrow> raster \<Rightarrow> raster \<Rightarrow> raster" where
  "spec_full_layer a b c d h = (\<lambda>p.
     case (a p, b p, c p, d p, h p) of
       (Some n, Some e, Some v, Some r, Some k) \<Rightarrow> Some (spec_full_model n e v r k)
     | _ \<Rightarrow> None)"

section \<open>Sample inputs\<close>

text \<open>
  A polygon, composites that are constant over the pixels, and a platform that has Sentinel-2
  scenes in every window of four weeks or more (so the search stops at its second window),
  five GEDI footprints in every window that starts on day 0 or later and none before, and a
  region of two pixels. The server's clock is on UTC.
\<close>

definition demo_geometry :: geometry where
  "demo_geometry = [[(0, 0), (0, 1), (1, 1), (0, 0)]]"

definition demo_s2 :: image where
  "demo_s2 = [''NDVI'' \<mapsto> (\<lambda>p. Some (1 / 2)), ''EVI'' \<mapsto> (\<lambda>p. Some (1 / 5)),
              ''LAI'' \<mapsto> (\<lambda>p. Some 1)]"

definition demo_s1 :: image where
  "demo_s1 = [''VV'' \<mapsto> (\<lambda>p. Some (- 8)), ''VH'' \<mapsto> (\<lambda>p. Some (- 10)),
              ''RVI'' \<mapsto> (\<lambda>p. Some (2 / 5))]"

definition demo_gedi :: image where
  "demo_gedi = [''CanopyHeight'' \<mapsto> (\<lambda>p. Some 10)]"

definition demo_reduced :: image where
  "demo_reduced = addBands demo_s2 demo_s1"

definition demo_harmonized :: image where
  "demo_harmonized = addBands demo_reduced demo_gedi"

definition demo_remote :: remote where
  "demo_remote =
     \<lparr>s2_size = (\<lambda>g s e. Inr (if 28 \<le> e - s then 2 else 0)),
      s2_composite = (\<lambda>g s e. Inr demo_s2),
      s1_size = (\<lambda>g s e. Inr 3),
      s1_composite = (\<lambda>g s e. Inr demo_s1),
      gedi_canopy = (\<lambda>g s e. Inr demo_gedi),
      gedi_size = (\<lambda>g s e. Inr (if 0 \<le> s then 5 else 0)),
      resample_reproject = (\<lambda>scale r. r),
      polygon_area = (\<lambda>g. Inr 20000),
      region_pixels = (\<lambda>g. [(0, 1), (1, 1 / 2)]),
      reduce_error = (\<lambda>g b. None),
      getMap = (\<lambda>img v. Inr (Some \<lparr>urlFormat = Some ''https://tiles/{z}/{x}/{y}'',
                                      url = None\<rparr>)),
      LocalTZA = (\<lambda>t isUTC. 0)\<rparr>"

text \<open>The same platform without Sentinel-2 scenes.\<close>

definition demo_remote_no_scenes :: remote where
  "demo_remote_no_scenes = demo_remote\<lparr>s2_size := (\<lambda>g s e. Inr 0)\<rparr>"

text \<open>The same platform with Sentinel-2 scenes only in windows of 24 weeks or more.\<close>

definition demo_remote_sparse :: remote where
  "demo_remote_sparse = demo_remote\<lparr>s2_size := (\<lambda>g s e. Inr (if 168 \<le> e - s then 1 else 0))\<rparr>"

text \<open>
  The time zone \<^verbatim>\<open>America/New_York\<close> in the year 2024: five hours behind UTC, and four
  from 2024-03-10 07:00 UTC (03:00 local time) until 2024-11-03 06:00 UTC (02:00 local
  daylight time). A local time that does not exist or exists twice is read with the offset
  before the change. With it, a platform with Sentinel-2 scenes in every window of three
  weeks or more, and the timestamp of the request's date \<^verbatim>\<open>2024-03-01\<close>, which is day 19783.
\<close>

definition America_New_York :: "timestamp \<Rightarrow> bool \<Rightarrow> int" where
  "America_New_York t isUTC =
     (if isUTC then
        (if 1710054000000 \<le> t \<and> t < 1730613600000 then - 14400000 else - 18000000)
      else
        (if 1710039600000 \<le> t \<and> t < 1730599200000 then - 14400000 else - 18000000))"

definition demo_remote_new_york :: remote where
  "demo_remote_new_york =
     demo_remote\<lparr>s2_size := (\<lambda>g s e. Inr (if 21 \<le> e - s then 2 else 0)),
                 LocalTZA := America_New_York\<rparr>"

definition demo_march_first :: timestamp where
  "demo_march_first = 1709251200000"

text \<open>A band that is masked everywhere (the composite of an empty collection).\<close>

definition demo_masked :: image where
  "demo_masked = [''AGB'' \<mapsto> (\<lambda>p. None)]"

text \<open>
  Three groups of a land-cover reduction, with the areas 10050, 250000 and 49.75 square
  metres (all three are doubles), and a platform of the classify route that answers the
  reduction of a Dynamic World image's \<^verbatim>\<open>classification\<close> band with them and reports an error
  for any other image.
\<close>

definition demo_area_stats :: area_stats where
  "demo_area_stats =
     \<lparr>groups = Some [\<lparr>class_value = 1, sum_value = 10050\<rparr>,
                     \<lparr>class_value = 6, sum_value = 250000\<rparr>,
                     \<lparr>class_value = 4, sum_value = 199 / 4\<rparr>]\<rparr>"

definition demo_classify_env :: classify_env where
  "demo_classify_env =
     \<lparr>months_before = (\<lambda>d n. if n = 1 then ''2023-12-01'' else ''2023-01-01''),
      area_statistics = (\<lambda>g img.
        case img of
          SelectBand b (DynamicWorldMode s e) \<Rightarrow>
            if b = ''classification'' then Inr (Some demo_area_stats)
            else Inl (RemoteServiceError ''Image.select: no band matches the pattern'')
        | _ \<Rightarrow> Inl (RemoteServiceError ''Image.select: no band matches the pattern'')),
      tile_map = (\<lambda>img v. Inr (Some \<lparr>urlFormat = None, url = Some ''https://tiles/map/''\<rparr>))\<rparr>"

text \<open>A request of the classify route that leaves \<open>year\<close>, \<open>useDynamicWorld\<close> and
  \<open>startDate\<close> out, and one that gives both dates.\<close>

definition demo_classify_body :: classify_body where
  "demo_classify_body =
     \<lparr>c_geometry = Some demo_geometry, c_year = None, c_useDynamicWorld = None,
      c_startDate = None, c_endDate = Some ''2024-01-01''\<rparr>"

definition demo_classify_body_dates :: classify_body where
  "demo_classify_body_dates =
     \<lparr>c_geometry = Some demo_geometry, c_year = None, c_useDynamicWorld = None,
      c_startDate = Some ''2023-06-01'', c_endDate = Some ''2024-01-01''\<rparr>"

declare exponent.simps [simp del]

declare findClosestDataWindow_loop.simps [simp del]

declare dynamicWorld_loop.simps [simp del]

section \<open>Properties of the regression\<close>

lemma clamp_value_range: "lo \<le> hi \<Longrightarrow> lo \<le> clamp_value lo hi v \<and> clamp_value lo hi v \<le> hi"
  by (simp add: clamp_value_def)

lemma calculateAGB_pixel_range:
  assumes "calculateAGB img h = Inr agb" "agb b = Some r" "r p = Some v"
  shows "0 \<le> v \<and> v \<le> 500"
proof -
  from assms(1) obtain raw where agb: "agb = clamp 0 500 (rename ''AGB'' raw)"
    by (auto simp: calculateAGB_def split: sum.splits)
  from assms(2,3) agb obtain v0 where "v = clamp_value 0 500 v0"
    by (auto simp: clamp_def rename_def split: if_splits)
  then show ?thesis using clamp_value_range[of 0 500 v0] by simp
qed

lemma agb_regression_reduced:
  assumes "img ''NDVI'' = Some a" "img ''EVI'' = Some b" "img ''VH'' = Some c" "img ''RVI'' = Some d"
  shows "agb_regression img False = Inr (spec_reduced_layer a b c d)"
  using assms
  by (auto simp add: agb_regression_def expression_def band_def select_def scalar_def
      reduced_model_expr_def REGRESSION_COEFFICIENTS_def Let_def spec_reduced_layer_def
      spec_reduced_model_def fun_eq_iff split: option.splits)

lemma agb_regression_full:
  assumes "img ''NDVI'' = Some a" "img ''EVI'' = Some b" "img ''VH'' = Some c" "img ''RVI'' = Some d"
    "img ''CanopyHeight'' = Some h"
  shows "agb_regression img True = Inr (spec_full_layer a b c d h)"
  using assms
  by (auto simp add: agb_regression_def expression_def band_def select_def scalar_def
      reduced_model_expr_def full_model_expr_def REGRESSION_COEFFICIENTS_def Let_def
      spec_full_layer_def spec_full_model_def fun_eq_iff split: option.splits)

section \<open>Properties of rounding and of the region statistics\<close>

lemma toFixed_range: "0 \<le> x \<Longrightarrow> x \<le> 500 \<Longrightarrow> 0 \<le> toFixed 2 x \<and> toFixed 2 x \<le> 500"
proof -
  assume a: "0 \<le> x" "x \<le> 500"
  have "\<lfloor>x * 100 + 1/2\<rfloor> \<le> \<lfloor>(50000::real) + 1/2\<rfloor>" using a by (intro floor_mono) simp
  also have "\<dots> = 50000" by linarith
  finally have u: "\<lfloor>x * 100 + 1/2\<rfloor> \<le> 50000" .
  have l: "0 \<le> \<lfloor>x * 100 + 1/2\<rfloor>" using a by simp
  have "real_of_int \<lfloor>x * 100 + 1/2\<rfloor> \<le> 50000" using u by linarith
  then show ?thesis using a l by (simp add: toFixed_def)
qed

lemma contributing_set:
  "(w, v) \<in> set (contributing r region) \<Longrightarrow> 0 < w \<and> (\<exists>p. r p = Some v)"
  by (auto simp: contributing_def List.map_filter_def split: if_splits)

lemma sum_weights_pos:
  fixes c :: "(real \<times> real) list"
  shows "c \<noteq> [] \<Longrightarrow> \<forall>x\<in>set c. 0 < fst x \<Longrightarrow> 0 < sum_list (map fst c)"
proof (induction c)
  case Nil then show ?case by simp
next
  case (Cons x xs)
  show ?case
  proof (cases "xs = []")
    case True with Cons.prems show ?thesis by simp
  next
    case False
    with Cons have "0 < sum_list (map fst xs)" by simp
    moreover have "0 < fst x" using Cons.prems by simp
    ultimately show ?thesis by simp
  qed
qed

lemma weighted_sum_bounds:
  fixes c :: "(real \<times> real) list"
  assumes "\<forall>x\<in>set c. 0 < fst x \<and> lo \<le> snd x \<and> snd x \<le> hi"
  shows "lo * sum_list (map fst c) \<le> sum_list (map (\<lambda>(w, v). w * v) c)
       \<and> sum_list (map (\<lambda>(w, v). w * v) c) \<le> hi * sum_list (map fst c)"
  using assms
proof (induction c)
  case Nil then show ?case by simp
next
  case (Cons x xs)
  obtain w v where x: "x = (w, v)" by (cases x)
  from Cons.prems x have w: "0 < w" "lo \<le> v" "v \<le> hi" by auto
  then have "lo * w \<le> w * v" "w * v \<le> hi * w"
    by (simp_all add: mult.commute mult_left_mono)
  moreover have "lo * sum_list (map fst xs) \<le> sum_list (map (\<lambda>(w, v). w * v) xs)
       \<and> sum_list (map (\<lambda>(w, v). w * v) xs) \<le> hi * sum_list (map fst xs)"
    using Cons by simp
  ultimately show ?case by (simp add: x algebra_simps)
qed

lemma weighted_mean_range:
  assumes "c \<noteq> []" "\<forall>x\<in>set c. 0 < fst x \<and> lo \<le> snd x \<and> snd x \<le> hi"
  shows "lo \<le> weighted_mean c \<and> weighted_mean c \<le> hi"
proof -
  have pos: "0 < sum_list (map fst c)" using assms by (intro sum_weights_pos) auto
  from weighted_sum_bounds[OF assms(2)] pos show ?thesis
    by (simp add: weighted_mean_def pos_le_divide_eq pos_divide_le_eq)
qed

lemma reduceRegion_range:
  assumes r: "\<forall>p v. r p = Some v \<longrightarrow> lo \<le> v \<and> v \<le> hi"
    and x: "reduceRegion r b region (b @ sfx) = Some x"
    and sfx: "sfx = ''_mean'' \<or> sfx = ''_min'' \<or> sfx = ''_max''"
  shows "lo \<le> x \<and> x \<le> hi"
proof -
  let ?c = "contributing r region"
  from x have ne: "?c \<noteq> []" by (auto simp: reduceRegion_def Let_def split: if_splits)
  have all: "\<forall>y\<in>set ?c. 0 < fst y \<and> lo \<le> snd y \<and> snd y \<le> hi"
    using contributing_set[of _ _ r region] r by fastforce
  have vals: "\<forall>v\<in>set (map snd ?c). lo \<le> v \<and> v \<le> hi" using all by auto
  have fin: "finite (set (map snd ?c))" "set (map snd ?c) \<noteq> {}" using ne by auto
  have mn: "Min (set (map snd ?c)) \<in> set (map snd ?c)" using fin by (rule Min_in)
  have mx: "Max (set (map snd ?c)) \<in> set (map snd ?c)" using fin by (rule Max_in)
  from sfx show ?thesis
  proof (elim disjE)
    assume "sfx = ''_mean''"
    with x ne have "x = weighted_mean ?c" by (simp add: reduceRegion_def Let_def)
    then show ?thesis using weighted_mean_range[OF ne all] by simp
  next
    assume "sfx = ''_min''"
    with x ne have "x = Min (set (map snd ?c))" by (simp add: reduceRegion_def Let_def)
    then show ?thesis using mn vals by blast
  next
    assume "sfx = ''_max''"
    with x ne have "x = Max (set (map snd ?c))" by (simp add: reduceRegion_def Let_def)
    then show ?thesis using mx vals by blast
  qed
qed

lemma or_zero_range:
  assumes "lo \<le> 0" "0 \<le> hi" "\<And>x. v = Some x \<Longrightarrow> lo \<le> x \<and> x \<le> hi"
  shows "lo \<le> or_zero v \<and> or_zero v \<le> hi"
  using assms by (cases v) (auto simp: or_zero_def)

lemma calculateImageStatistics_range:
  assumes st: "calculateImageStatistics rs img b g = Inr st"
    and band: "img b = Some r"
    and r: "\<forall>p v. r p = Some v \<longrightarrow> lo \<le> v \<and> v \<le> hi"
    and lohi: "lo \<le> 0" "0 \<le> hi"
  shows "lo \<le> mean st \<and> mean st \<le> hi \<and> lo \<le> min_v st \<and> min_v st \<le> hi
       \<and> lo \<le> max_v st \<and> max_v st \<le> hi"
proof -
  let ?res = "reduceRegion r b (region_pixels rs g)"
  from st band have eq:
    "mean st = or_zero (?res (b @ ''_mean''))"
    "min_v st = or_zero (?res (b @ ''_min''))"
    "max_v st = or_zero (?res (b @ ''_max''))"
    by (auto simp: calculateImageStatistics_def select_def Let_def split: option.splits)
  have "lo \<le> or_zero (?res (b @ sfx)) \<and> or_zero (?res (b @ sfx)) \<le> hi"
    if "sfx = ''_mean'' \<or> sfx = ''_min'' \<or> sfx = ''_max''" for sfx
    using lohi reduceRegion_range[OF r _ that] by (intro or_zero_range) auto
  then show ?thesis using eq by simp
qed

lemma calculateImageStatistics_ok:
  assumes "img b = Some r" "reduce_error rs g b = None"
  shows "\<exists>st. calculateImageStatistics rs img b g = Inr st"
  using assms by (simp add: calculateImageStatistics_def select_def Let_def)

section \<open>Properties of the per-date computation\<close>

lemma awaitE:
  assumes "await r k = Inr y"
  obtains v where "r = Inr v" "k v = Inr y"
  using assms by (cases r) (auto simp: await_def)

lemma calculateAGBForDate_Inr:
  assumes "calculateAGBForDate rs g t = Inr res"
  shows "\<exists>ls agbStats.
      calculateAGBForDate_layers rs g t = Inr ls
    \<and> calculateImageStatistics rs (agb_image ls) ''AGB'' g = Inr agbStats
    \<and> meanAGB res = toFixed 2 (mean agbStats)
    \<and> minAGB res = toFixed 2 (min_v agbStats)
    \<and> maxAGB res = toFixed 2 (max_v agbStats)
    \<and> (if has_canopy_height ls \<and> gedi_collection_set ls
        then gedi_size rs g (startDate (window ls)) (endDate (window ls)) else Inr 0)
         = Inr (gediFootprints (dataQuality res))
    \<and> (input_metrics.canopyHeight (inputMetrics res) = None \<longleftrightarrow> \<not> has_canopy_height ls)
    \<and> warnings res = gedi_warnings ls
    \<and> actualDateRange res = (startDate (window ls), endDate (window ls))"
  using assms unfolding calculateAGBForDate_def Let_def
  by (elim awaitE) auto

lemma calculateAGBForDate_layers_Inr:
  assumes "calculateAGBForDate_layers rs g t = Inr ls"
  shows "\<exists>gediHeight s2Composite s1Composite.
      findClosestDataWindow rs g t 3 = Inr (window ls)
    \<and> s2_composite rs g (startDate (window ls)) (endDate (window ls)) = Inr s2Composite
    \<and> s1_composite rs g (startDate (window ls)) (endDate (window ls)) = Inr s1Composite
    \<and> gedi_check rs g (startDate (window ls)) (endDate (window ls))
        = (gediHeight, gedi_collection_set ls, has_canopy_height ls, gedi_warnings ls)
    \<and> harmonizeResolution rs s2Composite s1Composite
          gediHeight 10 (has_canopy_height ls) = Inr (harmonized ls)
    \<and> calculateAGB (harmonized ls) (has_canopy_height ls) = Inr (agb_image ls)"
  using assms unfolding calculateAGBForDate_layers_def Let_def
  apply (elim awaitE)
  apply (simp split: prod.splits)
  apply (elim awaitE)
  apply auto
  done

lemma calculateAGBForDate_range:
  assumes "calculateAGBForDate rs g t = Inr res"
  shows "0 \<le> meanAGB res \<and> meanAGB res \<le> 500 \<and> 0 \<le> minAGB res \<and> minAGB res \<le> 500
       \<and> 0 \<le> maxAGB res \<and> maxAGB res \<le> 500"
proof -
  from calculateAGBForDate_Inr[OF assms] obtain ls agbStats where
    ls: "calculateAGBForDate_layers rs g t = Inr ls"
    and st: "calculateImageStatistics rs (agb_image ls) ''AGB'' g = Inr agbStats"
    and eq: "meanAGB res = toFixed 2 (mean agbStats)" "minAGB res = toFixed 2 (min_v agbStats)"
      "maxAGB res = toFixed 2 (max_v agbStats)"
    by blast
  from calculateAGBForDate_layers_Inr[OF ls]
  have agb: "calculateAGB (harmonized ls) (has_canopy_height ls) = Inr (agb_image ls)" by blast
  from st obtain r where r: "agb_image ls ''AGB'' = Some r"
    by (auto simp: calculateImageStatistics_def select_def split: option.splits)
  have "\<forall>p v. r p = Some v \<longrightarrow> 0 \<le> v \<and> v \<le> 500"
    using calculateAGB_pixel_range[OF agb r] by blast
  from calculateImageStatistics_range[OF st r this]
  have "0 \<le> mean agbStats \<and> mean agbStats \<le> 500 \<and> 0 \<le> min_v agbStats \<and> min_v agbStats \<le> 500
       \<and> 0 \<le> max_v agbStats \<and> max_v agbStats \<le> 500" by simp
  then show ?thesis using eq toFixed_range by simp
qed

lemma select_bands_Inr:
  assumes "select_bands img bs = Inr out"
  shows "out = img |` set bs \<and> (\<forall>b\<in>set bs. img b \<noteq> None)"
proof -
  from assms have "filter (\<lambda>b. img b = None) bs = []" and "out = img |` set bs"
    by (auto simp: select_bands_def split: list.splits)
  then show ?thesis by (auto simp: filter_empty_conv)
qed

lemma gedi_check_cases:
  assumes "gedi_check rs g s e = (gh, gc, hc, ws)"
  shows "(hc \<longrightarrow> gc \<and> gh \<noteq> None \<and> (\<exists>n. gedi_size rs g s e = Inr n \<and> 0 < n))
       \<and> (\<not> hc \<longrightarrow> ws \<noteq> [])"
  using assms by (auto simp: gedi_check_def split: sum.splits if_splits)

lemma harmonizeResolution_bands:
  assumes "harmonizeResolution rs s2 s1 gh res hc = Inr himg"
  shows "(\<forall>b\<in>{''NDVI'', ''EVI'', ''LAI'', ''VV'', ''VH'', ''RVI''}. himg b \<noteq> None)
       \<and> (himg ''CanopyHeight'' \<noteq> None \<longleftrightarrow> hc \<and> gh \<noteq> None)"
proof -
  from assms obtain a b where
    a: "select_bands s2 [''NDVI'', ''EVI'', ''LAI''] = Inr a"
    and b: "select_bands (resample rs res s1) [''VV'', ''VH'', ''RVI''] = Inr b"
    by (auto simp: harmonizeResolution_def Let_def split: sum.splits)
  note A = select_bands_Inr[OF a] and B = select_bands_Inr[OF b]
  show ?thesis
  proof (cases "hc \<and> gh \<noteq> None")
    case True
    then obtain gi where gi: "gh = Some gi" and hc: hc by auto
    with assms a b obtain c where
      c: "select_bands (resample rs res gi) [''CanopyHeight''] = Inr c"
      and h: "himg = addBands (addBands a b) c"
      by (auto simp: harmonizeResolution_def Let_def split: sum.splits)
    note C = select_bands_Inr[OF c]
    from A B C h True show ?thesis
      by (auto simp: addBands_def map_add_def restrict_map_def split: option.splits)
  next
    case False
    with assms a b have h: "himg = addBands a b"
      by (auto simp: harmonizeResolution_def Let_def split: sum.splits option.splits bool.splits)
    from A B h False show ?thesis
      by (auto simp: addBands_def map_add_def restrict_map_def split: option.splits)
  qed
qed

lemma calculateAGB_reduced:
  assumes "calculateAGB himg False = Inr agb"
    and "\<forall>b\<in>{''NDVI'', ''EVI'', ''LAI'', ''VV'', ''VH'', ''RVI''}. himg b \<noteq> None"
  shows "\<exists>a b c d. himg ''NDVI'' = Some a \<and> himg ''EVI'' = Some b \<and> himg ''VH'' = Some c
      \<and> himg ''RVI'' = Some d
      \<and> agb = clamp 0 500 (rename ''AGB'' (spec_reduced_layer a b c d))"
proof -
  from assms(2) obtain a b c d where
    bs: "himg ''NDVI'' = Some a" "himg ''EVI'' = Some b" "himg ''VH'' = Some c" "himg ''RVI'' = Some d"
    by auto
  from agb_regression_reduced[OF bs] assms(1)
  have "agb = clamp 0 500 (rename ''AGB'' (spec_reduced_layer a b c d))"
    by (simp add: calculateAGB_def)
  with bs show ?thesis by blast
qed

lemma calculateAGB_full:
  assumes "calculateAGB himg True = Inr agb"
    and "\<forall>b\<in>{''NDVI'', ''EVI'', ''LAI'', ''VV'', ''VH'', ''RVI''}. himg b \<noteq> None"
    and "himg ''CanopyHeight'' \<noteq> None"
  shows "\<exists>a b c d k. himg ''NDVI'' = Some a \<and> himg ''EVI'' = Some b \<and> himg ''VH'' = Some c
      \<and> himg ''RVI'' = Some d \<and> himg ''CanopyHeight'' = Some k
      \<and> agb = clamp 0 500 (rename ''AGB'' (spec_full_layer a b c d k))"
proof -
  from assms(2,3) obtain a b c d k where
    bs: "himg ''NDVI'' = Some a" "himg ''EVI'' = Some b" "himg ''VH'' = Some c" "himg ''RVI'' = Some d"
      "himg ''CanopyHeight'' = Some k"
    by auto
  from agb_regression_full[OF bs] assms(1)
  have "agb = clamp 0 500 (rename ''AGB'' (spec_full_layer a b c d k))"
    by (simp add: calculateAGB_def)
  with bs show ?thesis by blast
qed

section \<open>Properties of the window search\<close>

lemma fixed_zone_setDate:
  assumes "\<forall>x b. LocalTZA rs x b = c"
  shows "setDate_plus rs t k = t + k * msPerDay"
  by (simp add: setDate_plus_def UTC_def LocalTime_def assms)

lemma fixed_zone_window:
  assumes "\<forall>x b. LocalTZA rs x b = c"
  shows "startStr rs t w = iso_day t - 7 * int w" "endStr rs t w = iso_day t + 7 * int w"
  by (simp_all add: startStr_def endStr_def fixed_zone_setDate[OF assms] iso_day_def msPerDay_def)

lemma loop_unfold:
  "findClosestDataWindow_loop rs g t m w =
     (if w \<le> m * 4 then
        (case s2_size rs g (startStr rs t w) (endStr rs t w) of
           Inl err \<Rightarrow> Inl err
         | Inr sz \<Rightarrow>
             if 0 < sz then
               Inr \<lparr>startDate = startStr rs t w, endDate = endStr rs t w,
                    monthsUsed = (w + 3) div 4\<rparr>
             else findClosestDataWindow_loop rs g t m (w + 1))
      else Inl (DataUnavailable m t))"
  by (subst findClosestDataWindow_loop.simps)
    (simp add: Math_ceil_div_def Let_def ac_simps split: sum.splits)

lemma loop_exhausted:
  assumes "\<forall>w. k \<le> w \<and> w \<le> m * 4
      \<longrightarrow> s2_size rs g (startStr rs t w) (endStr rs t w) = Inr 0"
  shows "findClosestDataWindow_loop rs g t m k = Inl (DataUnavailable m t)"
  using assms
proof (induction "m * 4 + 1 - k" arbitrary: k)
  case 0
  then have "\<not> k \<le> m * 4" by simp
  then show ?case by (subst loop_unfold) simp
next
  case (Suc d)
  then have k: "k \<le> m * 4" by simp
  with Suc.prems have z: "s2_size rs g (startStr rs t k) (endStr rs t k) = Inr 0"
    by simp
  have "findClosestDataWindow_loop rs g t m (k + 1) = Inl (DataUnavailable m t)"
    using Suc.hyps(2) Suc.prems by (intro Suc.hyps(1)) auto
  with k z show ?case by (subst loop_unfold) simp
qed

lemma loop_first:
  assumes "k \<le> w" "w \<le> m * 4"
    and "\<forall>w'. k \<le> w' \<and> w' < w
      \<longrightarrow> s2_size rs g (startStr rs t w') (endStr rs t w') = Inr 0"
    and "s2_size rs g (startStr rs t w) (endStr rs t w) = Inr n" "0 < n"
  shows "findClosestDataWindow_loop rs g t m k =
     Inr \<lparr>startDate = startStr rs t w, endDate = endStr rs t w,
          monthsUsed = (w + 3) div 4\<rparr>"
  using assms(1,3)
proof (induction "w - k" arbitrary: k)
  case 0
  then have "k = w" by simp
  with assms(2,4,5) show ?case by (subst loop_unfold) simp
next
  case (Suc d)
  then have lt: "k < w" by simp
  with Suc.prems have z: "s2_size rs g (startStr rs t k) (endStr rs t k) = Inr 0"
    by simp
  have "findClosestDataWindow_loop rs g t m (k + 1) =
     Inr \<lparr>startDate = startStr rs t w, endDate = endStr rs t w,
          monthsUsed = (w + 3) div 4\<rparr>"
    using Suc.hyps(2) Suc.prems lt by (intro Suc.hyps(1)) auto
  with lt assms(2) z show ?case by (subst loop_unfold) simp
qed

lemma loop_found:
  assumes "findClosestDataWindow_loop rs g t m k = Inr win"
  shows "\<exists>w n. k \<le> w \<and> w \<le> m * 4
      \<and> s2_size rs g (startStr rs t w) (endStr rs t w) = Inr n \<and> 0 < n
      \<and> (\<forall>w'. k \<le> w' \<and> w' < w
            \<longrightarrow> s2_size rs g (startStr rs t w') (endStr rs t w') = Inr 0)
      \<and> win = \<lparr>startDate = startStr rs t w, endDate = endStr rs t w,
                 monthsUsed = (w + 3) div 4\<rparr>"
  using assms
proof (induction "m * 4 + 1 - k" arbitrary: k)
  case 0
  then have "\<not> k \<le> m * 4" by simp
  with "0.prems" show ?case by (subst (asm) loop_unfold) simp
next
  case (Suc d)
  then have k: "k \<le> m * 4" by simp
  from Suc.prems k obtain sz where
    sz: "s2_size rs g (startStr rs t k) (endStr rs t k) = Inr sz"
    by (subst (asm) loop_unfold) (auto split: sum.splits)
  show ?case
  proof (cases "0 < sz")
    case True
    with Suc.prems k sz have weq: "win = \<lparr>startDate = startStr rs t k,
        endDate = endStr rs t k, monthsUsed = (k + 3) div 4\<rparr>"
      by (subst (asm) loop_unfold) simp
    show ?thesis
      apply (rule exI[of _ k])
      apply (rule exI[of _ sz])
      using k sz True weq apply auto
      done
  next
    case False
    with Suc.prems k sz have "findClosestDataWindow_loop rs g t m (k + 1) = Inr win"
      by (subst (asm) loop_unfold) simp
    with Suc.hyps(2) have "\<exists>w n. k + 1 \<le> w \<and> w \<le> m * 4
      \<and> s2_size rs g (startStr rs t w) (endStr rs t w) = Inr n \<and> 0 < n
      \<and> (\<forall>w'. k + 1 \<le> w' \<and> w' < w
            \<longrightarrow> s2_size rs g (startStr rs t w') (endStr rs t w') = Inr 0)
      \<and> win = \<lparr>startDate = startStr rs t w, endDate = endStr rs t w,
                 monthsUsed = (w + 3) div 4\<rparr>"
      by (intro Suc.hyps(1)) auto
    then obtain w n where w: "k + 1 \<le> w" "w \<le> m * 4"
      "s2_size rs g (startStr rs t w) (endStr rs t w) = Inr n" "0 < n"
      "\<forall>w'. k + 1 \<le> w' \<and> w' < w
            \<longrightarrow> s2_size rs g (startStr rs t w') (endStr rs t w') = Inr 0"
      "win = \<lparr>startDate = startStr rs t w, endDate = endStr rs t w,
                 monthsUsed = (w + 3) div 4\<rparr>"
      by (elim exE conjE)
    have "s2_size rs g (startStr rs t w') (endStr rs t w') = Inr 0"
      if "k \<le> w'" "w' < w" for w'
    proof (cases "w' = k")
      case True with sz False show ?thesis by simp
    next
      case False with that w(5) show ?thesis by simp
    qed
    then have before: "\<forall>w'. k \<le> w' \<and> w' < w
            \<longrightarrow> s2_size rs g (startStr rs t w') (endStr rs t w') = Inr 0"
      by simp
    show ?thesis
      apply (rule exI[of _ w])
      apply (rule exI[of _ n])
      using w(1-4,6) before apply simp
      done
  qed
qed

section \<open>The sample platform\<close>

lemma demo_zone: "\<forall>x b. LocalTZA demo_remote x b = 0"
  by (simp add: demo_remote_def)

lemma demo_window:
  "findClosestDataWindow demo_remote demo_geometry t 3
     = Inr \<lparr>startDate = iso_day t - 14, endDate = iso_day t + 14, monthsUsed = 1\<rparr>"
proof -
  note z = fixed_zone_window[OF demo_zone]
  have "findClosestDataWindow_loop demo_remote demo_geometry t 3 1 =
     Inr \<lparr>startDate = startStr demo_remote t 2, endDate = endStr demo_remote t 2,
          monthsUsed = (2 + 3) div 4\<rparr>"
  proof (rule loop_first[where n = 2])
    show "\<forall>w'. 1 \<le> w' \<and> w' < 2 \<longrightarrow> s2_size demo_remote demo_geometry
        (startStr demo_remote t w') (endStr demo_remote t w') = Inr 0"
    proof (intro allI impI)
      fix w' :: nat assume "1 \<le> w' \<and> w' < 2"
      then have "w' = 1" by simp
      then show "s2_size demo_remote demo_geometry
        (startStr demo_remote t w') (endStr demo_remote t w') = Inr 0"
        unfolding z by (simp add: demo_remote_def)
    qed
    show "s2_size demo_remote demo_geometry (startStr demo_remote t 2) (endStr demo_remote t 2)
        = Inr 2"
      unfolding z by (simp add: demo_remote_def)
  qed simp_all
  then show ?thesis unfolding z by (simp add: findClosestDataWindow_def)
qed

lemma demo_gedi_check:
  "gedi_check demo_remote demo_geometry s e =
     (if 0 \<le> s then (Some demo_gedi, True, True, [])
      else (Some demo_gedi, True, False,
        [''No GEDI canopy height data available for this location and time period. AGB calculated without canopy height component.'']))"
  by (simp add: gedi_check_def demo_remote_def)

lemma demo_harmonize:
  "harmonizeResolution demo_remote demo_s2 demo_s1 (Some demo_gedi) 10 True = Inr demo_harmonized"
  "harmonizeResolution demo_remote demo_s2 demo_s1 (Some demo_gedi) 10 False = Inr demo_reduced"
  by (simp_all add: harmonizeResolution_def select_bands_def resample_def demo_remote_def demo_s2_def
      demo_s1_def demo_gedi_def demo_harmonized_def demo_reduced_def addBands_def Let_def
      restrict_map_def fun_eq_iff map_add_def)

lemma demo_bands:
  "demo_harmonized ''NDVI'' = Some (\<lambda>p. Some (1 / 2))"
  "demo_harmonized ''EVI'' = Some (\<lambda>p. Some (1 / 5))"
  "demo_harmonized ''VH'' = Some (\<lambda>p. Some (- 10))"
  "demo_harmonized ''RVI'' = Some (\<lambda>p. Some (2 / 5))"
  "demo_harmonized ''CanopyHeight'' = Some (\<lambda>p. Some 10)"
  "demo_reduced ''NDVI'' = Some (\<lambda>p. Some (1 / 2))"
  "demo_reduced ''EVI'' = Some (\<lambda>p. Some (1 / 5))"
  "demo_reduced ''VH'' = Some (\<lambda>p. Some (- 10))"
  "demo_reduced ''RVI'' = Some (\<lambda>p. Some (2 / 5))"
  "demo_reduced ''CanopyHeight'' = None"
  by (simp_all add: demo_harmonized_def demo_reduced_def demo_s2_def demo_s1_def demo_gedi_def
      addBands_def)

lemma demo_present:
  "demo_harmonized ''NDVI'' \<noteq> None" "demo_harmonized ''EVI'' \<noteq> None"
  "demo_harmonized ''LAI'' \<noteq> None" "demo_harmonized ''VH'' \<noteq> None"
  "demo_harmonized ''VV'' \<noteq> None" "demo_harmonized ''RVI'' \<noteq> None"
  "demo_harmonized ''CanopyHeight'' \<noteq> None"
  "demo_reduced ''NDVI'' \<noteq> None" "demo_reduced ''EVI'' \<noteq> None"
  "demo_reduced ''LAI'' \<noteq> None" "demo_reduced ''VH'' \<noteq> None"
  "demo_reduced ''VV'' \<noteq> None" "demo_reduced ''RVI'' \<noteq> None"
  by (simp_all add: demo_harmonized_def demo_reduced_def demo_s2_def demo_s1_def demo_gedi_def
      addBands_def)

lemma demo_agb:
  "calculateAGB demo_harmonized True = Inr [''AGB'' \<mapsto> (\<lambda>p. Some 350)]"
  "calculateAGB demo_reduced False = Inr [''AGB'' \<mapsto> (\<lambda>p. Some 200)]"
proof -
  have "agb_regression demo_harmonized True =
      Inr (spec_full_layer (\<lambda>p. Some (1 / 2)) (\<lambda>p. Some (1 / 5)) (\<lambda>p. Some (- 10))
             (\<lambda>p. Some (2 / 5)) (\<lambda>p. Some 10))"
    by (rule agb_regression_full) (rule demo_bands)+
  then show "calculateAGB demo_harmonized True = Inr [''AGB'' \<mapsto> (\<lambda>p. Some 350)]"
    by (simp add: calculateAGB_def clamp_def rename_def clamp_value_def spec_full_layer_def
        spec_full_model_def fun_eq_iff)
  have "agb_regression demo_reduced False =
      Inr (spec_reduced_layer (\<lambda>p. Some (1 / 2)) (\<lambda>p. Some (1 / 5)) (\<lambda>p. Some (- 10))
             (\<lambda>p. Some (2 / 5)))"
    by (rule agb_regression_reduced) (rule demo_bands)+
  then show "calculateAGB demo_reduced False = Inr [''AGB'' \<mapsto> (\<lambda>p. Some 200)]"
    by (simp add: calculateAGB_def clamp_def rename_def clamp_value_def spec_reduced_layer_def
        spec_reduced_model_def fun_eq_iff)
qed

lemma demo_composites:
  "s2_composite demo_remote g s e = Inr demo_s2" "s1_composite demo_remote g s e = Inr demo_s1"
  by (simp_all add: demo_remote_def)

lemma demo_layers_full:
  assumes "14 \<le> iso_day t"
  shows "calculateAGBForDate_layers demo_remote demo_geometry t =
     Inr \<lparr>window = \<lparr>startDate = iso_day t - 14, endDate = iso_day t + 14, monthsUsed = 1\<rparr>,
          gedi_collection_set = True, has_canopy_height = True, gedi_warnings = [],
          harmonized = demo_harmonized, agb_image = [''AGB'' \<mapsto> (\<lambda>p. Some 350)]\<rparr>"
  using assms
  by (simp add: calculateAGBForDate_layers_def await_def demo_window demo_gedi_check
      demo_composites demo_harmonize demo_agb)

lemma demo_layers_reduced:
  assumes "iso_day t < 14"
  shows "calculateAGBForDate_layers demo_remote demo_geometry t =
     Inr \<lparr>window = \<lparr>startDate = iso_day t - 14, endDate = iso_day t + 14, monthsUsed = 1\<rparr>,
          gedi_collection_set = True, has_canopy_height = False,
          gedi_warnings = [''No GEDI canopy height data available for this location and time period. AGB calculated without canopy height component.''],
          harmonized = demo_reduced, agb_image = [''AGB'' \<mapsto> (\<lambda>p. Some 200)]\<rparr>"
  using assms
  by (simp add: calculateAGBForDate_layers_def await_def demo_window demo_gedi_check
      demo_composites demo_harmonize demo_agb)

lemma demo_agb_stats:
  "calculateImageStatistics demo_remote [''AGB'' \<mapsto> (\<lambda>p. Some 350)] ''AGB'' demo_geometry
     = Inr \<lparr>mean = 350, min_v = 350, max_v = 350, stdDev = 0\<rparr>"
  "calculateImageStatistics demo_remote [''AGB'' \<mapsto> (\<lambda>p. Some 200)] ''AGB'' demo_geometry
     = Inr \<lparr>mean = 200, min_v = 200, max_v = 200, stdDev = 0\<rparr>"
  by (simp_all add: calculateImageStatistics_def select_def demo_remote_def reduceRegion_def
      contributing_def List.map_filter_def weighted_mean_def weighted_stdDev_def or_zero_def Let_def)

lemma demo_input_stats:
  assumes "img b \<noteq> None"
  shows "\<exists>st. calculateImageStatistics demo_remote img b demo_geometry = Inr st"
proof -
  from assms obtain r where "img b = Some r" by auto
  moreover have "reduce_error demo_remote demo_geometry b = None" by (simp add: demo_remote_def)
  ultimately show ?thesis by (rule calculateImageStatistics_ok)
qed

lemma demo_url:
  "\<exists>u. getVisualizationUrl demo_remote img v = Inr u"
  by (simp add: getVisualizationUrl_def demo_remote_def str_or_def)

lemma demo_result_full:
  assumes "14 \<le> iso_day t"
  shows "\<exists>res. calculateAGBForDate demo_remote demo_geometry t = Inr res
      \<and> meanAGB res = 350 \<and> minAGB res = 350 \<and> maxAGB res = 350
      \<and> totalBiomass res = 700
      \<and> gediFootprints (dataQuality res) = 5"
proof -
  obtain s1 s2 s3 s4 s5 s6 s7 where st:
    "calculateImageStatistics demo_remote demo_harmonized ''NDVI'' demo_geometry = Inr s1"
    "calculateImageStatistics demo_remote demo_harmonized ''EVI'' demo_geometry = Inr s2"
    "calculateImageStatistics demo_remote demo_harmonized ''LAI'' demo_geometry = Inr s3"
    "calculateImageStatistics demo_remote demo_harmonized ''VH'' demo_geometry = Inr s4"
    "calculateImageStatistics demo_remote demo_harmonized ''VV'' demo_geometry = Inr s5"
    "calculateImageStatistics demo_remote demo_harmonized ''RVI'' demo_geometry = Inr s6"
    "calculateImageStatistics demo_remote demo_harmonized ''CanopyHeight'' demo_geometry = Inr s7"
    using demo_input_stats[of demo_harmonized "''NDVI''", OF demo_present(1)] demo_input_stats[of demo_harmonized "''EVI''", OF demo_present(2)]
      demo_input_stats[of demo_harmonized "''LAI''", OF demo_present(3)] demo_input_stats[of demo_harmonized "''VH''", OF demo_present(4)]
      demo_input_stats[of demo_harmonized "''VV''", OF demo_present(5)] demo_input_stats[of demo_harmonized "''RVI''", OF demo_present(6)]
      demo_input_stats[of demo_harmonized "''CanopyHeight''", OF demo_present(7)]
    by (elim exE)
  have r: "polygon_area demo_remote demo_geometry = Inr 20000"
    "s2_size demo_remote demo_geometry (iso_day t - 14) (iso_day t + 14) = Inr 2"
    "s1_size demo_remote demo_geometry (iso_day t - 14) (iso_day t + 14) = Inr 3"
    "gedi_size demo_remote demo_geometry (iso_day t - 14) (iso_day t + 14) = Inr 5"
    using assms by (simp_all add: demo_remote_def)
  from demo_url obtain u where u: "getVisualizationUrl demo_remote [''AGB'' \<mapsto> (\<lambda>p. Some 350)]
      \<lparr>vis_min = 0, vis_max = 300, palette = [''yellow'', ''green'', ''darkgreen'']\<rparr> = Inr u"
    by blast
  show ?thesis
    by (simp add: calculateAGBForDate_def demo_layers_full[OF assms] await_def demo_agb_stats
        st r u toFixed_def Let_def)
qed

lemma demo_result_reduced:
  assumes "iso_day t < 14"
  shows "\<exists>res. calculateAGBForDate demo_remote demo_geometry t = Inr res
      \<and> meanAGB res = 200 \<and> minAGB res = 200 \<and> maxAGB res = 200
      \<and> totalBiomass res = 400
      \<and> gediFootprints (dataQuality res) = 0"
proof -
  obtain s1 s2 s3 s4 s5 s6 where st:
    "calculateImageStatistics demo_remote demo_reduced ''NDVI'' demo_geometry = Inr s1"
    "calculateImageStatistics demo_remote demo_reduced ''EVI'' demo_geometry = Inr s2"
    "calculateImageStatistics demo_remote demo_reduced ''LAI'' demo_geometry = Inr s3"
    "calculateImageStatistics demo_remote demo_reduced ''VH'' demo_geometry = Inr s4"
    "calculateImageStatistics demo_remote demo_reduced ''VV'' demo_geometry = Inr s5"
    "calculateImageStatistics demo_remote demo_reduced ''RVI'' demo_geometry = Inr s6"
    using demo_input_stats[of demo_reduced "''NDVI''", OF demo_present(8)] demo_input_stats[of demo_reduced "''EVI''", OF demo_present(9)]
      demo_input_stats[of demo_reduced "''LAI''", OF demo_present(10)] demo_input_stats[of demo_reduced "''VH''", OF demo_present(11)]
      demo_input_stats[of demo_reduced "''VV''", OF demo_present(12)] demo_input_stats[of demo_reduced "''RVI''", OF demo_present(13)]
    by (elim exE)
  have r: "polygon_area demo_remote demo_geometry = Inr 20000"
    "s2_size demo_remote demo_geometry (iso_day t - 14) (iso_day t + 14) = Inr 2"
    "s1_size demo_remote demo_geometry (iso_day t - 14) (iso_day t + 14) = Inr 3"
    using assms by (simp_all add: demo_remote_def)
  from demo_url obtain u where u: "getVisualizationUrl demo_remote [''AGB'' \<mapsto> (\<lambda>p. Some 200)]
      \<lparr>vis_min = 0, vis_max = 300, palette = [''yellow'', ''green'', ''darkgreen'']\<rparr> = Inr u"
    by blast
  show ?thesis
    by (simp add: calculateAGBForDate_def demo_layers_reduced[OF assms] await_def demo_agb_stats
        st r u toFixed_def Let_def)
qed

lemma demo_days: "iso_day 0 = 0" "iso_day 126230400000 = 1461"
  by (simp_all add: iso_day_def msPerDay_def)

section \<open>The clamp invariant\<close>

text \<open>
  Claim C1. Every AGB value the pipeline produces lies in \<open>[0, 500]\<close>: every unmasked pixel
  of the image \<^verbatim>\<open>calculateAGB\<close> returns, for the full and for the reduced model alike, and
  hence the statistics \<open>meanAGB\<close>, \<open>minAGB\<close> and \<open>maxAGB\<close> of every result that
  \<^verbatim>\<open>calculateAGBForDate\<close> returns (it returns one only when the window search found a
  Sentinel-2 scene).
\<close>

theorem agb_clamp_invariant:
  "(\<forall>agb r p v. calculateAGB img h = Inr agb \<longrightarrow> agb ''AGB'' = Some r \<longrightarrow> r p = Some v
        \<longrightarrow> 0 \<le> v \<and> v \<le> 500)
   \<and> (\<forall>res. calculateAGBForDate rs g t = Inr res
        \<longrightarrow> 0 \<le> meanAGB res \<and> meanAGB res \<le> 500
          \<and> 0 \<le> minAGB res \<and> minAGB res \<le> 500
          \<and> 0 \<le> maxAGB res \<and> maxAGB res \<le> 500)"
  using calculateAGB_pixel_range[of img h] calculateAGBForDate_range[of rs g t] by blast

theorem agb_clamp_invariant_witness:
  "(\<exists>agb r v. calculateAGB demo_harmonized True = Inr agb \<and> agb ''AGB'' = Some r
        \<and> r 0 = Some v \<and> v = 350 \<and> 0 \<le> v \<and> v \<le> 500)
   \<and> (\<exists>res. calculateAGBForDate demo_remote demo_geometry 126230400000 = Inr res
        \<and> meanAGB res = 350
        \<and> 0 \<le> meanAGB res \<and> meanAGB res \<le> 500
        \<and> 0 \<le> minAGB res \<and> minAGB res \<le> 500
        \<and> 0 \<le> maxAGB res \<and> maxAGB res \<le> 500)"
proof -
  note inv = agb_clamp_invariant[of demo_harmonized True demo_remote demo_geometry 126230400000]
  define agb :: image where "agb = [''AGB'' \<mapsto> (\<lambda>p. Some 350)]"
  have a: "calculateAGB demo_harmonized True = Inr agb" "agb ''AGB'' = Some (\<lambda>p. Some 350)"
    by (simp_all add: agb_def demo_agb)
  from inv a have "0 \<le> (350::real) \<and> (350::real) \<le> 500" by blast
  with a have first: "\<exists>agb r v. calculateAGB demo_harmonized True = Inr agb \<and> agb ''AGB'' = Some r
        \<and> r 0 = Some v \<and> v = 350 \<and> 0 \<le> v \<and> v \<le> 500"
    by blast
  have "14 \<le> iso_day 126230400000" by (simp add: demo_days)
  from demo_result_full[OF this] obtain res where
    res: "calculateAGBForDate demo_remote demo_geometry 126230400000 = Inr res" "meanAGB res = 350"
    by blast
  from inv res(1) have "0 \<le> meanAGB res \<and> meanAGB res \<le> 500 \<and> 0 \<le> minAGB res \<and> minAGB res \<le> 500
      \<and> 0 \<le> maxAGB res \<and> maxAGB res \<le> 500"
    by blast
  with res first show ?thesis by blast
qed

section \<open>The regression equations\<close>

text \<open>
  Claim C8. Before clamping, \<^verbatim>\<open>calculateAGB\<close> evaluates exactly the linear model
  \<open>-150 + 200 NDVI + 150 EVI + (-20) VH + 50 RVI + 15 CanopyHeight\<close> in its full variant and
  the same equation without the canopy-height term in its reduced variant, pixel by pixel;
  the coefficients are the constants of \<open>REGRESSION_COEFFICIENTS\<close>; the image returned is
  that layer, named AGB and clamped to \<open>[0, 500]\<close>.
\<close>

theorem regression_model:
  assumes "img ''NDVI'' = Some a" "img ''EVI'' = Some b" "img ''VH'' = Some c" "img ''RVI'' = Some d"
  shows "REGRESSION_COEFFICIENTS =
           \<lparr>intercept = - 150, ndvi = 200, evi = 150, vh = - 20, rvi = 50, canopyHeight = 15\<rparr>
       \<and> agb_regression img False = Inr (spec_reduced_layer a b c d)
       \<and> calculateAGB img False = Inr (clamp 0 500 (rename ''AGB'' (spec_reduced_layer a b c d)))
       \<and> (\<forall>k. img ''CanopyHeight'' = Some k \<longrightarrow>
              agb_regression img True = Inr (spec_full_layer a b c d k)
            \<and> calculateAGB img True = Inr (clamp 0 500 (rename ''AGB'' (spec_full_layer a b c d k))))"
proof -
  have red: "agb_regression img False = Inr (spec_reduced_layer a b c d)"
    using assms by (rule agb_regression_reduced)
  have full: "agb_regression img True = Inr (spec_full_layer a b c d k)"
    if "img ''CanopyHeight'' = Some k" for k
    using assms that by (rule agb_regression_full)
  show ?thesis
    using red full by (simp add: calculateAGB_def REGRESSION_COEFFICIENTS_def)
qed

theorem regression_model_witness:
  "agb_regression demo_harmonized False = Inr (spec_reduced_layer (\<lambda>p. Some (1 / 2))
       (\<lambda>p. Some (1 / 5)) (\<lambda>p. Some (- 10)) (\<lambda>p. Some (2 / 5)))
   \<and> spec_reduced_layer (\<lambda>p. Some (1 / 2)) (\<lambda>p. Some (1 / 5)) (\<lambda>p. Some (- 10))
       (\<lambda>p. Some (2 / 5)) 0 = Some 200
   \<and> agb_regression demo_harmonized True = Inr (spec_full_layer (\<lambda>p. Some (1 / 2))
       (\<lambda>p. Some (1 / 5)) (\<lambda>p. Some (- 10)) (\<lambda>p. Some (2 / 5)) (\<lambda>p. Some 10))
   \<and> spec_full_layer (\<lambda>p. Some (1 / 2)) (\<lambda>p. Some (1 / 5)) (\<lambda>p. Some (- 10))
       (\<lambda>p. Some (2 / 5)) (\<lambda>p. Some 10) 0 = Some 350"
proof -
  note b = demo_bands(1-5)
  from regression_model[OF b(1-4)] b(5)
  have "agb_regression demo_harmonized False = Inr (spec_reduced_layer (\<lambda>p. Some (1 / 2))
       (\<lambda>p. Some (1 / 5)) (\<lambda>p. Some (- 10)) (\<lambda>p. Some (2 / 5)))
     \<and> agb_regression demo_harmonized True = Inr (spec_full_layer (\<lambda>p. Some (1 / 2))
       (\<lambda>p. Some (1 / 5)) (\<lambda>p. Some (- 10)) (\<lambda>p. Some (2 / 5)) (\<lambda>p. Some 10))"
    by blast
  then show ?thesis
    by (simp add: spec_reduced_layer_def spec_reduced_model_def spec_full_layer_def
        spec_full_model_def)
qed

section \<open>The reduced-model invariant\<close>

text \<open>
  Claim C2. In every result \<^verbatim>\<open>calculateAGBForDate\<close> returns, \<open>dataQuality.gediFootprints\<close> is
  0 exactly when \<open>inputMetrics.canopyHeight\<close> is \<^verbatim>\<open>null\<close>. In that case the harmonized image
  has no canopy-height band and the AGB image is the reduced four-term equation (clamped);
  when \<open>gediFootprints\<close> is positive the harmonized image has the band and the AGB image is
  the full five-term equation (clamped).
\<close>

theorem reduced_model_invariant:
  assumes "calculateAGBForDate rs g t = Inr res"
  shows "\<exists>ls. calculateAGBForDate_layers rs g t = Inr ls
     \<and> (gediFootprints (dataQuality res) = 0
          \<longleftrightarrow> input_metrics.canopyHeight (inputMetrics res) = None)
     \<and> (gediFootprints (dataQuality res) = 0 \<longrightarrow>
           \<not> has_canopy_height ls \<and> harmonized ls ''CanopyHeight'' = None
         \<and> (\<exists>a b c d. harmonized ls ''NDVI'' = Some a \<and> harmonized ls ''EVI'' = Some b
              \<and> harmonized ls ''VH'' = Some c \<and> harmonized ls ''RVI'' = Some d
              \<and> agb_image ls = clamp 0 500 (rename ''AGB'' (spec_reduced_layer a b c d))))
     \<and> (0 < gediFootprints (dataQuality res) \<longrightarrow>
           has_canopy_height ls
         \<and> (\<exists>a b c d k. harmonized ls ''NDVI'' = Some a \<and> harmonized ls ''EVI'' = Some b
              \<and> harmonized ls ''VH'' = Some c \<and> harmonized ls ''RVI'' = Some d
              \<and> harmonized ls ''CanopyHeight'' = Some k
              \<and> agb_image ls = clamp 0 500 (rename ''AGB'' (spec_full_layer a b c d k))))"
proof -
  from calculateAGBForDate_Inr[OF assms] obtain ls where
    ls: "calculateAGBForDate_layers rs g t = Inr ls"
    and n: "(if has_canopy_height ls \<and> gedi_collection_set ls
        then gedi_size rs g (startDate (window ls)) (endDate (window ls)) else Inr 0)
         = Inr (gediFootprints (dataQuality res))"
    and ch: "input_metrics.canopyHeight (inputMetrics res) = None \<longleftrightarrow> \<not> has_canopy_height ls"
    by (elim exE conjE) (rule that)
  from calculateAGBForDate_layers_Inr[OF ls] obtain gh s2c s1c where
    gc: "gedi_check rs g (startDate (window ls)) (endDate (window ls))
        = (gh, gedi_collection_set ls, has_canopy_height ls, gedi_warnings ls)"
    and hz: "harmonizeResolution rs s2c s1c gh 10 (has_canopy_height ls) = Inr (harmonized ls)"
    and agb: "calculateAGB (harmonized ls) (has_canopy_height ls) = Inr (agb_image ls)"
    by (elim exE conjE) (rule that)
  note G = gedi_check_cases[OF gc]
  note H1 = conjunct1[OF harmonizeResolution_bands[OF hz]]
  note H2 = conjunct2[OF harmonizeResolution_bands[OF hz]]
  have fp: "gediFootprints (dataQuality res) = 0 \<longleftrightarrow> \<not> has_canopy_height ls"
    using n G by (auto split: if_splits)
  have red: "\<not> has_canopy_height ls \<and> harmonized ls ''CanopyHeight'' = None
         \<and> (\<exists>a b c d. harmonized ls ''NDVI'' = Some a \<and> harmonized ls ''EVI'' = Some b
              \<and> harmonized ls ''VH'' = Some c \<and> harmonized ls ''RVI'' = Some d
              \<and> agb_image ls = clamp 0 500 (rename ''AGB'' (spec_reduced_layer a b c d)))"
    if z: "gediFootprints (dataQuality res) = 0"
  proof -
    from z fp have nh: "\<not> has_canopy_height ls" by simp
    with agb have "calculateAGB (harmonized ls) False = Inr (agb_image ls)" by simp
    from calculateAGB_reduced[OF this H1] H2 nh show ?thesis by simp
  qed
  have full: "has_canopy_height ls
         \<and> (\<exists>a b c d k. harmonized ls ''NDVI'' = Some a \<and> harmonized ls ''EVI'' = Some b
              \<and> harmonized ls ''VH'' = Some c \<and> harmonized ls ''RVI'' = Some d
              \<and> harmonized ls ''CanopyHeight'' = Some k
              \<and> agb_image ls = clamp 0 500 (rename ''AGB'' (spec_full_layer a b c d k)))"
    if p: "0 < gediFootprints (dataQuality res)"
  proof -
    from p fp have h: "has_canopy_height ls" by simp
    with agb have a: "calculateAGB (harmonized ls) True = Inr (agb_image ls)" by simp
    from h G H2 have "harmonized ls ''CanopyHeight'' \<noteq> None" by simp
    from calculateAGB_full[OF a H1 this] h show ?thesis by simp
  qed
  have both: "gediFootprints (dataQuality res) = 0
          \<longleftrightarrow> input_metrics.canopyHeight (inputMetrics res) = None"
    using fp ch by simp
  show ?thesis
    apply (rule exI[of _ ls])
    apply (intro conjI impI)
    apply (rule ls)
    apply (rule both)
    using red full by simp_all
qed

theorem reduced_model_invariant_witness:
  "(\<exists>res ls. calculateAGBForDate demo_remote demo_geometry 0 = Inr res
       \<and> calculateAGBForDate_layers demo_remote demo_geometry 0 = Inr ls
       \<and> gediFootprints (dataQuality res) = 0
       \<and> input_metrics.canopyHeight (inputMetrics res) = None
       \<and> \<not> has_canopy_height ls \<and> harmonized ls ''CanopyHeight'' = None
       \<and> meanAGB res = 200)
   \<and> (\<exists>res ls. calculateAGBForDate demo_remote demo_geometry 126230400000 = Inr res
       \<and> calculateAGBForDate_layers demo_remote demo_geometry 126230400000 = Inr ls
       \<and> gediFootprints (dataQuality res) = 5
       \<and> input_metrics.canopyHeight (inputMetrics res) \<noteq> None
       \<and> has_canopy_height ls \<and> harmonized ls ''CanopyHeight'' \<noteq> None
       \<and> meanAGB res = 350)"
proof -
  have "iso_day 0 < 14" by (simp add: demo_days)
  from demo_result_reduced[OF this] obtain res where
    res: "calculateAGBForDate demo_remote demo_geometry 0 = Inr res"
      "meanAGB res = 200" "gediFootprints (dataQuality res) = 0"
    by (elim exE conjE)
  from reduced_model_invariant[OF res(1)] res(3) obtain ls where
    "calculateAGBForDate_layers demo_remote demo_geometry 0 = Inr ls"
    "input_metrics.canopyHeight (inputMetrics res) = None"
    "\<not> has_canopy_height ls" "harmonized ls ''CanopyHeight'' = None"
    by auto
  with res have first: "\<exists>res ls. calculateAGBForDate demo_remote demo_geometry 0 = Inr res
       \<and> calculateAGBForDate_layers demo_remote demo_geometry 0 = Inr ls
       \<and> gediFootprints (dataQuality res) = 0
       \<and> input_metrics.canopyHeight (inputMetrics res) = None
       \<and> \<not> has_canopy_height ls \<and> harmonized ls ''CanopyHeight'' = None
       \<and> meanAGB res = 200"
    by (intro exI conjI)
  have "14 \<le> iso_day 126230400000" by (simp add: demo_days)
  from demo_result_full[OF this] obtain res' where
    res': "calculateAGBForDate demo_remote demo_geometry 126230400000 = Inr res'"
      "meanAGB res' = 350" "gediFootprints (dataQuality res') = 5"
    by (elim exE conjE)
  from reduced_model_invariant[OF res'(1)] res'(3) obtain ls' where
    "calculateAGBForDate_layers demo_remote demo_geometry 126230400000 = Inr ls'"
    "input_metrics.canopyHeight (inputMetrics res') \<noteq> None"
    "has_canopy_height ls'" "harmonized ls' ''CanopyHeight'' \<noteq> None"
    by auto
  with res' have "\<exists>res ls. calculateAGBForDate demo_remote demo_geometry 126230400000 = Inr res
       \<and> calculateAGBForDate_layers demo_remote demo_geometry 126230400000 = Inr ls
       \<and> gediFootprints (dataQuality res) = 5
       \<and> input_metrics.canopyHeight (inputMetrics res) \<noteq> None
       \<and> has_canopy_height ls \<and> harmonized ls ''CanopyHeight'' \<noteq> None
       \<and> meanAGB res = 350"
    by (intro exI conjI)
  with first show ?thesis by (rule conjI)
qed

section \<open>The adaptive window search\<close>

lemma new_york_windows:
  "iso_day demo_march_first = 19783"
  "startStr demo_remote_new_york demo_march_first 1 = 19776"
  "endStr demo_remote_new_york demo_march_first 1 = 19790"
  "startStr demo_remote_new_york demo_march_first 2 = 19769"
  "endStr demo_remote_new_york demo_march_first 2 = 19796"
  by (simp_all add: startStr_def endStr_def setDate_plus_def UTC_def LocalTime_def
      demo_remote_new_york_def demo_remote_def America_New_York_def demo_march_first_def
      iso_day_def msPerDay_def)

lemma new_york_sizes:
  "s2_size demo_remote_new_york demo_geometry 19776 19790 = Inr 0"
  "s2_size demo_remote_new_york demo_geometry 19769 19796 = Inr 2"
  by (simp_all add: demo_remote_new_york_def demo_remote_def)

lemma sparse_zone: "\<forall>x b. LocalTZA demo_remote_sparse x b = 0"
  by (simp add: demo_remote_sparse_def demo_remote_def)

text \<open>
  Claim C4, as the specification states it, fails twice. On a server in the time zone
  \<^verbatim>\<open>America/New_York\<close> the search around 2024-03-01 (day 19783) returns the window from
  2024-02-16 to 2024-03-14, which reaches 14 days before the target day and 13 days after
  it: the window is not symmetric. And on a server on UTC, with scenes only in the widest
  window, the search with the bound of 3 months returns a window of 168 days, from 84 days
  before the target day to 84 days after it: the window is wider than three months.
\<close>

theorem adaptive_window_counterexample:
  "(\<exists>win. findClosestDataWindow demo_remote_new_york demo_geometry demo_march_first 3 = Inr win
      \<and> startDate win = 19769 \<and> endDate win = 19796
      \<and> iso_day demo_march_first - startDate win = 14
      \<and> endDate win - iso_day demo_march_first = 13)
   \<and> (\<exists>win. findClosestDataWindow demo_remote_sparse demo_geometry 0 3 = Inr win
      \<and> monthsUsed win = 3
      \<and> iso_day 0 - startDate win = 84 \<and> endDate win - iso_day 0 = 84
      \<and> endDate win - startDate win = 168)"
proof -
  have "findClosestDataWindow_loop demo_remote_new_york demo_geometry demo_march_first 3 1 =
     Inr \<lparr>startDate = startStr demo_remote_new_york demo_march_first 2,
          endDate = endStr demo_remote_new_york demo_march_first 2, monthsUsed = (2 + 3) div 4\<rparr>"
  proof (rule loop_first[where n = 2])
    show "\<forall>w'. 1 \<le> w' \<and> w' < 2 \<longrightarrow> s2_size demo_remote_new_york demo_geometry
        (startStr demo_remote_new_york demo_march_first w')
        (endStr demo_remote_new_york demo_march_first w') = Inr 0"
    proof (intro allI impI)
      fix w' :: nat assume "1 \<le> w' \<and> w' < 2"
      then have "w' = 1" by simp
      with new_york_windows(2,3) new_york_sizes(1)
      show "s2_size demo_remote_new_york demo_geometry
        (startStr demo_remote_new_york demo_march_first w')
        (endStr demo_remote_new_york demo_march_first w') = Inr 0"
        by simp
    qed
    show "s2_size demo_remote_new_york demo_geometry
        (startStr demo_remote_new_york demo_march_first 2)
        (endStr demo_remote_new_york demo_march_first 2) = Inr 2"
      by (simp add: new_york_windows new_york_sizes)
  qed simp_all
  then have ny: "findClosestDataWindow demo_remote_new_york demo_geometry demo_march_first 3 =
     Inr \<lparr>startDate = 19769, endDate = 19796, monthsUsed = 1\<rparr>"
    by (simp add: findClosestDataWindow_def new_york_windows)
  note z = fixed_zone_window[OF sparse_zone]
  have "findClosestDataWindow_loop demo_remote_sparse demo_geometry 0 3 1 =
     Inr \<lparr>startDate = startStr demo_remote_sparse 0 12, endDate = endStr demo_remote_sparse 0 12,
          monthsUsed = (12 + 3) div 4\<rparr>"
  proof (rule loop_first[where n = 1])
    show "\<forall>w'. 1 \<le> w' \<and> w' < 12 \<longrightarrow> s2_size demo_remote_sparse demo_geometry
        (startStr demo_remote_sparse 0 w') (endStr demo_remote_sparse 0 w') = Inr 0"
      unfolding z by (simp add: demo_remote_sparse_def demo_remote_def)
    show "s2_size demo_remote_sparse demo_geometry
        (startStr demo_remote_sparse 0 12) (endStr demo_remote_sparse 0 12) = Inr 1"
      unfolding z by (simp add: demo_remote_sparse_def demo_remote_def)
  qed simp_all
  then have sp: "findClosestDataWindow demo_remote_sparse demo_geometry 0 3 =
     Inr \<lparr>startDate = - 84, endDate = 84, monthsUsed = 3\<rparr>"
    unfolding z by (simp add: findClosestDataWindow_def iso_day_def)
  have 1: "\<exists>win. findClosestDataWindow demo_remote_new_york demo_geometry demo_march_first 3
        = Inr win
      \<and> startDate win = 19769 \<and> endDate win = 19796
      \<and> iso_day demo_march_first - startDate win = 14
      \<and> endDate win - iso_day demo_march_first = 13"
    by (rule exI[of _ "\<lparr>startDate = 19769, endDate = 19796, monthsUsed = 1\<rparr>"])
      (simp add: ny new_york_windows)
  have 2: "\<exists>win. findClosestDataWindow demo_remote_sparse demo_geometry 0 3 = Inr win
      \<and> monthsUsed win = 3
      \<and> iso_day 0 - startDate win = 84 \<and> endDate win - iso_day 0 = 84
      \<and> endDate win - startDate win = 168"
    by (rule exI[of _ "\<lparr>startDate = - 84, endDate = 84, monthsUsed = 3\<rparr>"])
      (simp add: sp iso_day_def)
  from 1 2 show ?thesis by (rule conjI)
qed

text \<open>
  Claim C4, amended. The search tries the windows of 1, 2, ... weeks on each side of the
  target, in this order, up to four weeks per month of the bound. It returns a window
  exactly when some width in that range has a Sentinel-2 scene and every narrower one was
  found empty; the window returned is the one of the first such width \<open>w\<close>, with
  \<open>monthsUsed\<close> the number of months \<open>w\<close> weeks need (\<open>w / 4\<close> rounded up), which is at most
  the bound (at most 3 for AGB). On a server whose local time keeps one offset from UTC,
  the window of \<open>w\<close> weeks is the target day with \<open>7 w\<close> days on each side: the window
  returned is symmetric, reaches at most 28 days per month of the bound on each side and
  spans at most twice that; for AGB (bound 3) that is at most 84 days on each side and
  168 days in all.
\<close>

theorem adaptive_window_search:
  "(findClosestDataWindow rs g t m = Inr win \<longleftrightarrow>
      (\<exists>w. 1 \<le> w \<and> w \<le> m * 4
         \<and> (\<exists>n. s2_size rs g (startStr rs t w) (endStr rs t w) = Inr n \<and> 0 < n)
         \<and> (\<forall>w'. 1 \<le> w' \<and> w' < w
               \<longrightarrow> s2_size rs g (startStr rs t w') (endStr rs t w') = Inr 0)
         \<and> win = \<lparr>startDate = startStr rs t w, endDate = endStr rs t w,
                    monthsUsed = (w + 3) div 4\<rparr>))
   \<and> (findClosestDataWindow rs g t m = Inr win \<longrightarrow>
          1 \<le> monthsUsed win \<and> monthsUsed win \<le> m)
   \<and> (\<forall>ls. calculateAGBForDate_layers rs g t = Inr ls \<longrightarrow>
          1 \<le> monthsUsed (window ls) \<and> monthsUsed (window ls) \<le> 3)
   \<and> ((\<forall>x b. LocalTZA rs x b = c) \<longrightarrow>
        (\<forall>w. startStr rs t w = iso_day t - 7 * int w \<and> endStr rs t w = iso_day t + 7 * int w)
      \<and> (findClosestDataWindow rs g t m = Inr win \<longrightarrow>
            iso_day t - startDate win = endDate win - iso_day t
          \<and> endDate win - iso_day t \<le> 28 * int m
          \<and> endDate win - startDate win \<le> 56 * int m)
      \<and> (\<forall>ls. calculateAGBForDate_layers rs g t = Inr ls \<longrightarrow>
            iso_day t - startDate (window ls) = endDate (window ls) - iso_day t
          \<and> endDate (window ls) - iso_day t \<le> 84
          \<and> endDate (window ls) - startDate (window ls) \<le> 168))"
proof -
  have found: "\<exists>w. 1 \<le> w \<and> w \<le> m' * 4
         \<and> (\<exists>n. s2_size rs g (startStr rs t w) (endStr rs t w) = Inr n \<and> 0 < n)
         \<and> (\<forall>w'. 1 \<le> w' \<and> w' < w
               \<longrightarrow> s2_size rs g (startStr rs t w') (endStr rs t w') = Inr 0)
         \<and> win' = \<lparr>startDate = startStr rs t w, endDate = endStr rs t w,
                    monthsUsed = (w + 3) div 4\<rparr>"
    if "findClosestDataWindow rs g t m' = Inr win'" for m' win'
    using loop_found[of rs g t m' 1 win'] that unfolding findClosestDataWindow_def by blast
  have first: "findClosestDataWindow rs g t m = Inr win"
    if "\<exists>w. 1 \<le> w \<and> w \<le> m * 4
         \<and> (\<exists>n. s2_size rs g (startStr rs t w) (endStr rs t w) = Inr n \<and> 0 < n)
         \<and> (\<forall>w'. 1 \<le> w' \<and> w' < w
               \<longrightarrow> s2_size rs g (startStr rs t w') (endStr rs t w') = Inr 0)
         \<and> win = \<lparr>startDate = startStr rs t w, endDate = endStr rs t w,
                    monthsUsed = (w + 3) div 4\<rparr>"
    using that loop_first[of 1 _ m rs g t] unfolding findClosestDataWindow_def by blast
  have months: "1 \<le> monthsUsed win' \<and> monthsUsed win' \<le> m'"
    if "findClosestDataWindow rs g t m' = Inr win'" for m' win'
  proof -
    from found[OF that] obtain w where w: "1 \<le> w" "w \<le> m' * 4"
      "win' = \<lparr>startDate = startStr rs t w, endDate = endStr rs t w,
                    monthsUsed = (w + 3) div 4\<rparr>"
      by blast
    from w(1,2) have "(w + 3) div 4 \<le> m'" "1 \<le> (w + 3) div 4" by linarith+
    with w show ?thesis by simp
  qed
  have agb_months: "1 \<le> monthsUsed (window ls) \<and> monthsUsed (window ls) \<le> 3"
    if "calculateAGBForDate_layers rs g t = Inr ls" for ls
  proof -
    from calculateAGBForDate_layers_Inr[OF that]
    have "findClosestDataWindow rs g t 3 = Inr (window ls)" by (elim exE conjE)
    from months[OF this] show ?thesis .
  qed
  have bounds: "iso_day t - startDate win' = endDate win' - iso_day t
        \<and> endDate win' - iso_day t \<le> 28 * int m'
        \<and> endDate win' - startDate win' \<le> 56 * int m'"
    if "findClosestDataWindow rs g t m' = Inr win'" and zone: "\<forall>x b. LocalTZA rs x b = c"
    for m' win'
  proof -
    from found[OF that(1)] obtain w where w: "1 \<le> w" "w \<le> m' * 4"
      "win' = \<lparr>startDate = startStr rs t w, endDate = endStr rs t w,
                    monthsUsed = (w + 3) div 4\<rparr>"
      by blast
    from w(2) have "int w \<le> 4 * int m'" by linarith
    with w(3) show ?thesis unfolding fixed_zone_window[OF zone] by simp
  qed
  have agb: "iso_day t - startDate (window ls) = endDate (window ls) - iso_day t
        \<and> endDate (window ls) - iso_day t \<le> 84
        \<and> endDate (window ls) - startDate (window ls) \<le> 168"
    if "calculateAGBForDate_layers rs g t = Inr ls" and zone: "\<forall>x b. LocalTZA rs x b = c" for ls
  proof -
    from calculateAGBForDate_layers_Inr[OF that(1)]
    have "findClosestDataWindow rs g t 3 = Inr (window ls)" by (elim exE conjE)
    from bounds[OF this zone] show ?thesis by simp
  qed
  have days: "startStr rs t w = iso_day t - 7 * int w \<and> endStr rs t w = iso_day t + 7 * int w"
    if "\<forall>x b. LocalTZA rs x b = c" for w
    using fixed_zone_window[OF that] by simp
  from found[of m win] first have 1: "findClosestDataWindow rs g t m = Inr win \<longleftrightarrow>
      (\<exists>w. 1 \<le> w \<and> w \<le> m * 4
         \<and> (\<exists>n. s2_size rs g (startStr rs t w) (endStr rs t w) = Inr n \<and> 0 < n)
         \<and> (\<forall>w'. 1 \<le> w' \<and> w' < w
               \<longrightarrow> s2_size rs g (startStr rs t w') (endStr rs t w') = Inr 0)
         \<and> win = \<lparr>startDate = startStr rs t w, endDate = endStr rs t w,
                    monthsUsed = (w + 3) div 4\<rparr>)"
    by (rule iffI)
  from months[of m win] have 2: "findClosestDataWindow rs g t m = Inr win \<longrightarrow>
          1 \<le> monthsUsed win \<and> monthsUsed win \<le> m" by (rule impI)
  from agb_months have 3: "\<forall>ls. calculateAGBForDate_layers rs g t = Inr ls \<longrightarrow>
          1 \<le> monthsUsed (window ls) \<and> monthsUsed (window ls) \<le> 3" by simp
  from days bounds[of m win] agb have 4: "(\<forall>x b. LocalTZA rs x b = c) \<longrightarrow>
        (\<forall>w. startStr rs t w = iso_day t - 7 * int w \<and> endStr rs t w = iso_day t + 7 * int w)
      \<and> (findClosestDataWindow rs g t m = Inr win \<longrightarrow>
            iso_day t - startDate win = endDate win - iso_day t
          \<and> endDate win - iso_day t \<le> 28 * int m
          \<and> endDate win - startDate win \<le> 56 * int m)
      \<and> (\<forall>ls. calculateAGBForDate_layers rs g t = Inr ls \<longrightarrow>
            iso_day t - startDate (window ls) = endDate (window ls) - iso_day t
          \<and> endDate (window ls) - iso_day t \<le> 84
          \<and> endDate (window ls) - startDate (window ls) \<le> 168)"
    by simp
  from 1 2 3 4 show ?thesis by (intro conjI)
qed

theorem adaptive_window_search_witness:
  "findClosestDataWindow demo_remote demo_geometry 0 3
     = Inr \<lparr>startDate = - 14, endDate = 14, monthsUsed = 1\<rparr>
   \<and> (\<forall>x b. LocalTZA demo_remote x b = 0)
   \<and> startStr demo_remote 0 1 = - 7 \<and> endStr demo_remote 0 1 = 7
   \<and> startStr demo_remote 0 2 = - 14 \<and> endStr demo_remote 0 2 = 14
   \<and> s2_size demo_remote demo_geometry (- 7) 7 = Inr 0
   \<and> s2_size demo_remote demo_geometry (- 14) 14 = Inr 2
   \<and> iso_day 0 - (- 14) = 14 - iso_day 0
   \<and> (14::int) - iso_day 0 \<le> 28 * 3 \<and> (14::int) - (- 14) \<le> 56 * 3"
proof -
  let ?win = "\<lparr>startDate = - 14, endDate = 14, monthsUsed = 1\<rparr>"
  note z = fixed_zone_window[OF demo_zone]
  have d: "startStr demo_remote 0 1 = - 7" "endStr demo_remote 0 1 = 7"
    "startStr demo_remote 0 2 = - 14" "endStr demo_remote 0 2 = 14"
    unfolding z by (simp_all add: iso_day_def)
  have s: "s2_size demo_remote demo_geometry (- 7) 7 = Inr 0"
    "s2_size demo_remote demo_geometry (- 14) 14 = Inr 2"
    by (simp_all add: demo_remote_def)
  have before: "\<forall>w'. 1 \<le> w' \<and> w' < 2
        \<longrightarrow> s2_size demo_remote demo_geometry (startStr demo_remote 0 w')
              (endStr demo_remote 0 w') = Inr 0"
    unfolding z by (simp add: demo_remote_def iso_day_def)
  have pre: "\<exists>w. 1 \<le> w \<and> w \<le> 3 * 4
         \<and> (\<exists>n. s2_size demo_remote demo_geometry (startStr demo_remote 0 w)
                (endStr demo_remote 0 w) = Inr n \<and> 0 < n)
         \<and> (\<forall>w'. 1 \<le> w' \<and> w' < w
               \<longrightarrow> s2_size demo_remote demo_geometry (startStr demo_remote 0 w')
                     (endStr demo_remote 0 w') = Inr 0)
         \<and> ?win = \<lparr>startDate = startStr demo_remote 0 w, endDate = endStr demo_remote 0 w,
                    monthsUsed = (w + 3) div 4\<rparr>"
    apply (rule exI[of _ 2])
    using before apply (simp add: d s)
    done
  note t = adaptive_window_search[of demo_remote demo_geometry 0 3 ?win 0]
  from t pre have f: "findClosestDataWindow demo_remote demo_geometry 0 3 = Inr ?win" by blast
  from t demo_zone f have
    "iso_day 0 - startDate ?win = endDate ?win - iso_day 0
      \<and> endDate ?win - iso_day 0 \<le> 28 * int 3
      \<and> endDate ?win - startDate ?win \<le> 56 * int 3"
    by blast
  then have b: "iso_day 0 - (- 14) = 14 - iso_day 0"
    "(14::int) - iso_day 0 \<le> 28 * 3" "(14::int) - (- 14) \<le> 56 * 3"
    by simp_all
  from f demo_zone d s b show ?thesis by (intro conjI)
qed

text \<open>
  Claim C3. If every candidate window up to the bound has no Sentinel-2 scene under the
  cloud threshold, the search fails with the error that carries the bound and the target
  date. Nothing stands in for the missing result: \<^verbatim>\<open>calculateAGBForDate\<close> fails with the
  same error, and the endpoint answers with a server error, whether the date is the start
  or the end of the request.
\<close>

theorem data_unavailable:
  assumes "\<forall>w. 1 \<le> w \<and> w \<le> m * 4
      \<longrightarrow> s2_size rs g (startStr rs t w) (endStr rs t w) = Inr 0"
  shows "findClosestDataWindow rs g t m = Inl (DataUnavailable m t)
     \<and> (m = 3 \<longrightarrow>
          calculateAGBForDate rs g t = Inl (DataUnavailable 3 t)
        \<and> (\<forall>t2. POST rs \<lparr>body_geometry = Some g, body_startDate = Some t, body_endDate = Some t2\<rparr>
              = ServerError (DataUnavailable 3 t))
        \<and> (\<forall>t1 resp. POST rs \<lparr>body_geometry = Some g, body_startDate = Some t1,
                body_endDate = Some t\<rparr> \<noteq> Ok resp))"
proof -
  have w: "findClosestDataWindow rs g t m = Inl (DataUnavailable m t)"
    unfolding findClosestDataWindow_def using assms by (rule loop_exhausted)
  have agb: "calculateAGBForDate rs g t = Inl (DataUnavailable 3 t)" if "m = 3"
    using w that by (simp add: calculateAGBForDate_def calculateAGBForDate_layers_def await_def)
  have p1: "POST rs \<lparr>body_geometry = Some g, body_startDate = Some t, body_endDate = Some t2\<rparr>
              = ServerError (DataUnavailable 3 t)" if "m = 3" for t2
    using agb[OF that] by (simp add: POST_def)
  have p2: "POST rs \<lparr>body_geometry = Some g, body_startDate = Some t1, body_endDate = Some t\<rparr>
              \<noteq> Ok resp" if "m = 3" for t1 resp
    using agb[OF that] by (simp add: POST_def split: sum.splits)
  from w agb p1 p2 show ?thesis by blast
qed

theorem data_unavailable_witness:
  "findClosestDataWindow demo_remote_no_scenes demo_geometry 0 3 = Inl (DataUnavailable 3 0)
   \<and> calculateAGBForDate demo_remote_no_scenes demo_geometry 0 = Inl (DataUnavailable 3 0)
   \<and> POST demo_remote_no_scenes
        \<lparr>body_geometry = Some demo_geometry, body_startDate = Some 0, body_endDate = Some 86400000\<rparr>
       = ServerError (DataUnavailable 3 0)"
proof -
  have "\<forall>w. 1 \<le> w \<and> w \<le> 3 * 4 \<longrightarrow> s2_size demo_remote_no_scenes demo_geometry
      (startStr demo_remote_no_scenes 0 w) (endStr demo_remote_no_scenes 0 w) = Inr 0"
    by (simp add: demo_remote_no_scenes_def demo_remote_def)
  from data_unavailable[OF this] show ?thesis by blast
qed

section \<open>Change analysis\<close>

lemma POST_Ok:
  assumes "calculateAGBForDate rs g t1 = Inr startAGB" "calculateAGBForDate rs g t2 = Inr endAGB"
  shows "\<exists>resp. POST rs \<lparr>body_geometry = Some g, body_startDate = Some t1, body_endDate = Some t2\<rparr>
        = Ok resp
      \<and> report (startDate_report resp) = startAGB \<and> report (endDate_report resp) = endAGB
      \<and> meanAGBChange (agbChange resp) = toFixed 2 (agbChange_of startAGB endAGB)
      \<and> percentChange (agbChange resp) = toFixed 2 (agbChangePercent startAGB endAGB)
      \<and> annualAGBChange (agbChange resp) = toFixed 2 (annualAGBChange_of startAGB endAGB t1 t2)
      \<and> durationDays (timePeriod resp) = daysDifference t1 t2
      \<and> durationYears (timePeriod resp) = toFixed 2 (yearsDifference t1 t2)"
  using assms by (simp add: POST_def Let_def)

text \<open>
  Claim C6. For every pair of per-date results, the percent change is the absolute change
  divided by the start mean and multiplied by 100 when the start mean is not 0, and it is 0
  when the start mean is 0, whatever the end mean is. (The code tests \<open>startMeanAGB > 0\<close>;
  a mean the pipeline produces is never negative.) The response carries this value rounded
  to two decimals.
\<close>

theorem percent_change:
  assumes "calculateAGBForDate rs g t1 = Inr startAGB" "calculateAGBForDate rs g t2 = Inr endAGB"
  shows "agbChange_of startAGB endAGB = meanAGB endAGB - meanAGB startAGB
     \<and> agbChangePercent startAGB endAGB =
         (if meanAGB startAGB = 0 then 0
          else agbChange_of startAGB endAGB / meanAGB startAGB * 100)
     \<and> (\<exists>resp. POST rs \<lparr>body_geometry = Some g, body_startDate = Some t1,
                  body_endDate = Some t2\<rparr> = Ok resp
          \<and> percentChange (agbChange resp) = toFixed 2 (agbChangePercent startAGB endAGB))"
proof -
  from calculateAGBForDate_range[OF assms(1)] have "0 \<le> meanAGB startAGB" by simp
  then have "agbChangePercent startAGB endAGB =
         (if meanAGB startAGB = 0 then 0
          else agbChange_of startAGB endAGB / meanAGB startAGB * 100)"
    by (simp add: agbChangePercent_def)
  moreover from POST_Ok[OF assms]
  have "\<exists>resp. POST rs \<lparr>body_geometry = Some g, body_startDate = Some t1,
                  body_endDate = Some t2\<rparr> = Ok resp
          \<and> percentChange (agbChange resp) = toFixed 2 (agbChangePercent startAGB endAGB)"
    by (elim exE conjE) (intro exI conjI)
  ultimately show ?thesis by (simp add: agbChange_of_def)
qed

theorem percent_change_witness:
  "\<exists>startAGB endAGB resp.
      calculateAGBForDate demo_remote demo_geometry 0 = Inr startAGB
    \<and> calculateAGBForDate demo_remote demo_geometry 126230400000 = Inr endAGB
    \<and> meanAGB startAGB = 200 \<and> meanAGB endAGB = 350
    \<and> agbChangePercent startAGB endAGB = 75
    \<and> POST demo_remote \<lparr>body_geometry = Some demo_geometry, body_startDate = Some 0,
         body_endDate = Some 126230400000\<rparr> = Ok resp
    \<and> percentChange (agbChange resp) = 75"
proof -
  have "iso_day 0 < 14" "14 \<le> iso_day 126230400000" by (simp_all add: demo_days)
  from demo_result_reduced[OF this(1)] demo_result_full[OF this(2)] obtain s e where
    se: "calculateAGBForDate demo_remote demo_geometry 0 = Inr s" "meanAGB s = 200"
      "calculateAGBForDate demo_remote demo_geometry 126230400000 = Inr e" "meanAGB e = 350"
    by (elim exE conjE)
  from percent_change[OF se(1,3)] obtain resp where
    p: "agbChangePercent s e = (if meanAGB s = 0 then 0 else agbChange_of s e / meanAGB s * 100)"
      "agbChange_of s e = meanAGB e - meanAGB s"
      "POST demo_remote \<lparr>body_geometry = Some demo_geometry, body_startDate = Some 0,
         body_endDate = Some 126230400000\<rparr> = Ok resp"
      "percentChange (agbChange resp) = toFixed 2 (agbChangePercent s e)"
    by (elim exE conjE)
  from p(1,2) se have v: "agbChangePercent s e = 75" by simp
  with p(4) have "percentChange (agbChange resp) = 75" by (simp add: toFixed_def)
  with se p(3) v show ?thesis by (intro exI conjI)
qed

text \<open>
  Claim C7. The duration in years is the number of whole days from the start date to the
  end date divided by 365.25; the annualized change is the absolute change divided by that
  duration, and it is 0 when the duration is not positive. The response carries this value
  rounded to two decimals.
\<close>

theorem annualized_change:
  assumes "calculateAGBForDate rs g t1 = Inr startAGB" "calculateAGBForDate rs g t2 = Inr endAGB"
  shows "daysDifference t1 t2 = (t2 - t1) div 86400000
     \<and> yearsDifference t1 t2 = of_int (daysDifference t1 t2) / 365.25
     \<and> annualAGBChange_of startAGB endAGB t1 t2 =
         (if yearsDifference t1 t2 \<le> 0 then 0
          else agbChange_of startAGB endAGB / yearsDifference t1 t2)
     \<and> (\<exists>resp. POST rs \<lparr>body_geometry = Some g, body_startDate = Some t1,
                  body_endDate = Some t2\<rparr> = Ok resp
          \<and> durationDays (timePeriod resp) = daysDifference t1 t2
          \<and> annualAGBChange (agbChange resp)
              = toFixed 2 (annualAGBChange_of startAGB endAGB t1 t2))"
proof -
  from POST_Ok[OF assms]
  have "\<exists>resp. POST rs \<lparr>body_geometry = Some g, body_startDate = Some t1,
                  body_endDate = Some t2\<rparr> = Ok resp
          \<and> durationDays (timePeriod resp) = daysDifference t1 t2
          \<and> annualAGBChange (agbChange resp)
              = toFixed 2 (annualAGBChange_of startAGB endAGB t1 t2)"
    by (elim exE conjE) (intro exI conjI)
  then show ?thesis
    by (simp add: daysDifference_def yearsDifference_def annualAGBChange_of_def not_less)
qed

theorem annualized_change_witness:
  "(\<exists>startAGB endAGB resp.
      calculateAGBForDate demo_remote demo_geometry 0 = Inr startAGB
    \<and> calculateAGBForDate demo_remote demo_geometry 126230400000 = Inr endAGB
    \<and> daysDifference 0 126230400000 = 1461 \<and> yearsDifference 0 126230400000 = 4
    \<and> annualAGBChange_of startAGB endAGB 0 126230400000 = 37.5
    \<and> POST demo_remote \<lparr>body_geometry = Some demo_geometry, body_startDate = Some 0,
         body_endDate = Some 126230400000\<rparr> = Ok resp
    \<and> annualAGBChange (agbChange resp) = 37.5)
   \<and> (\<exists>startAGB endAGB.
      calculateAGBForDate demo_remote demo_geometry 126230400000 = Inr startAGB
    \<and> calculateAGBForDate demo_remote demo_geometry 0 = Inr endAGB
    \<and> yearsDifference 126230400000 0 = - 4
    \<and> annualAGBChange_of startAGB endAGB 126230400000 0 = 0)"
proof -
  have "iso_day 0 < 14" "14 \<le> iso_day 126230400000" by (simp_all add: demo_days)
  from demo_result_reduced[OF this(1)] demo_result_full[OF this(2)] obtain s e where
    se: "calculateAGBForDate demo_remote demo_geometry 0 = Inr s" "meanAGB s = 200"
      "calculateAGBForDate demo_remote demo_geometry 126230400000 = Inr e" "meanAGB e = 350"
    by (elim exE conjE)
  have d: "daysDifference 0 126230400000 = 1461" "yearsDifference 0 126230400000 = 4"
    "yearsDifference 126230400000 0 = - 4"
    by (simp_all add: daysDifference_def yearsDifference_def)
  from annualized_change[OF se(1,3)] obtain resp where
    p: "annualAGBChange_of s e 0 126230400000 =
         (if yearsDifference 0 126230400000 \<le> 0 then 0
          else agbChange_of s e / yearsDifference 0 126230400000)"
      "POST demo_remote \<lparr>body_geometry = Some demo_geometry, body_startDate = Some 0,
         body_endDate = Some 126230400000\<rparr> = Ok resp"
      "annualAGBChange (agbChange resp) = toFixed 2 (annualAGBChange_of s e 0 126230400000)"
    by (elim exE conjE)
  from p(1) d se have v: "annualAGBChange_of s e 0 126230400000 = 37.5"
    by (simp add: agbChange_of_def)
  with p(3) have "annualAGBChange (agbChange resp) = 37.5" by (simp add: toFixed_def)
  with se p(2) v d have first: "\<exists>startAGB endAGB resp.
      calculateAGBForDate demo_remote demo_geometry 0 = Inr startAGB
    \<and> calculateAGBForDate demo_remote demo_geometry 126230400000 = Inr endAGB
    \<and> daysDifference 0 126230400000 = 1461 \<and> yearsDifference 0 126230400000 = 4
    \<and> annualAGBChange_of startAGB endAGB 0 126230400000 = 37.5
    \<and> POST demo_remote \<lparr>body_geometry = Some demo_geometry, body_startDate = Some 0,
         body_endDate = Some 126230400000\<rparr> = Ok resp
    \<and> annualAGBChange (agbChange resp) = 37.5"
    by (intro exI conjI)
  from annualized_change[OF se(3,1)]
  have "annualAGBChange_of e s 126230400000 0 =
         (if yearsDifference 126230400000 0 \<le> 0 then 0
          else agbChange_of e s / yearsDifference 126230400000 0)"
    by (elim exE conjE)
  with d have "annualAGBChange_of e s 126230400000 0 = 0" by simp
  with se d have "\<exists>startAGB endAGB.
      calculateAGBForDate demo_remote demo_geometry 126230400000 = Inr startAGB
    \<and> calculateAGBForDate demo_remote demo_geometry 0 = Inr endAGB
    \<and> yearsDifference 126230400000 0 = - 4
    \<and> annualAGBChange_of startAGB endAGB 126230400000 0 = 0"
    by (intro exI conjI)
  with first show ?thesis by (rule conjI)
qed

section \<open>Missing pixels in the region statistics\<close>

lemma contributing_simps:
  "contributing r [] = []"
  "contributing r ((p, w) # region) =
     (if 0 < w then (case r p of None \<Rightarrow> contributing r region
                     | Some v \<Rightarrow> (w, v) # contributing r region)
      else contributing r region)"
  by (auto simp: contributing_def List.map_filter_def split: option.splits)

lemma contributing_unmasked:
  "contributing r region = contributing r (filter (\<lambda>(p, w). r p \<noteq> None) region)"
  by (induction region) (auto simp: contributing_simps split: option.splits)

lemma reduceRegion_empty:
  "contributing r region = [] \<Longrightarrow> reduceRegion r b region k = None"
  by (simp add: reduceRegion_def)

lemma reduceRegion_values:
  assumes "contributing r region \<noteq> []"
  shows "reduceRegion r b region (b @ ''_mean'') = Some (weighted_mean (contributing r region))"
    and "reduceRegion r b region (b @ ''_min'') = Some (Min (set (map snd (contributing r region))))"
    and "reduceRegion r b region (b @ ''_max'') = Some (Max (set (map snd (contributing r region))))"
    and "reduceRegion r b region (b @ ''_stdDev'') = Some (weighted_stdDev (contributing r region))"
  using assms by (simp_all add: reduceRegion_def Let_def)

text \<open>
  The sentence of the specification behind claim C5 asks that an absent aggregate is never
  reported as the number 0. The code does report it so: over a band that is masked everywhere
  no pixel contributes, every entry of the reduction is absent, and
  \<^verbatim>\<open>calculateImageStatistics\<close> returns 0 for the mean, the minimum, the maximum and the
  deviation (the \<^verbatim>\<open>|| 0\<close> of its four fields).
\<close>

theorem absent_aggregate_counterexample:
  "contributing (\<lambda>p. None) (region_pixels demo_remote demo_geometry) = []
   \<and> reduceRegion (\<lambda>p. None) ''AGB'' (region_pixels demo_remote demo_geometry) ''AGB_mean'' = None
   \<and> calculateImageStatistics demo_remote demo_masked ''AGB'' demo_geometry
       = Inr \<lparr>mean = 0, min_v = 0, max_v = 0, stdDev = 0\<rparr>"
  by (simp add: calculateImageStatistics_def select_def demo_masked_def demo_remote_def
      reduceRegion_def contributing_def List.map_filter_def or_zero_def)

text \<open>
  Claim C5, as the code has it. Masked pixels take no part in a region reduction: the
  contributing pixels are those of the region without its masked pixels, and when at least
  one pixel contributes the four statistics are the weighted mean, the minimum, the maximum
  and the deviation of the contributing values alone. When no pixel contributes, every
  entry of the reduction is absent and \<^verbatim>\<open>calculateImageStatistics\<close> reports each of the four
  statistics as 0.
\<close>

theorem region_statistics_missing_pixels:
  assumes "calculateImageStatistics rs img b g = Inr st" "img b = Some r"
  shows "contributing r (region_pixels rs g)
           = contributing r (filter (\<lambda>(p, w). r p \<noteq> None) (region_pixels rs g))
     \<and> (contributing r (region_pixels rs g) \<noteq> [] \<longrightarrow>
            mean st = weighted_mean (contributing r (region_pixels rs g))
          \<and> min_v st = Min (set (map snd (contributing r (region_pixels rs g))))
          \<and> max_v st = Max (set (map snd (contributing r (region_pixels rs g))))
          \<and> stdDev st = weighted_stdDev (contributing r (region_pixels rs g)))
     \<and> (contributing r (region_pixels rs g) = [] \<longrightarrow>
            (\<forall>k. reduceRegion r b (region_pixels rs g) k = None)
          \<and> mean st = 0 \<and> min_v st = 0 \<and> max_v st = 0 \<and> stdDev st = 0)"
proof -
  let ?c = "contributing r (region_pixels rs g)"
  let ?res = "reduceRegion r b (region_pixels rs g)"
  from assms have eq:
    "mean st = or_zero (?res (b @ ''_mean''))"
    "min_v st = or_zero (?res (b @ ''_min''))"
    "max_v st = or_zero (?res (b @ ''_max''))"
    "stdDev st = or_zero (?res (b @ ''_stdDev''))"
    by (auto simp: calculateImageStatistics_def select_def Let_def split: option.splits)
  have some: "mean st = weighted_mean ?c \<and> min_v st = Min (set (map snd ?c))
      \<and> max_v st = Max (set (map snd ?c)) \<and> stdDev st = weighted_stdDev ?c" if "?c \<noteq> []"
    using eq reduceRegion_values[OF that, of b] by (simp add: or_zero_def)
  have none: "(\<forall>k. ?res k = None) \<and> mean st = 0 \<and> min_v st = 0 \<and> max_v st = 0 \<and> stdDev st = 0"
    if "?c = []"
    using eq reduceRegion_empty[OF that, of b] by (simp add: or_zero_def)
  from some none contributing_unmasked[of r "region_pixels rs g"] show ?thesis by blast
qed

theorem region_statistics_missing_pixels_witness:
  "calculateImageStatistics demo_remote
      [''AGB'' \<mapsto> (\<lambda>p. if p = 0 then None else Some 120)] ''AGB'' demo_geometry
     = Inr \<lparr>mean = 120, min_v = 120, max_v = 120, stdDev = 0\<rparr>
   \<and> contributing (\<lambda>p. if p = 0 then None else Some 120) (region_pixels demo_remote demo_geometry)
       = [(1 / 2, 120)]
   \<and> (\<exists>st. calculateImageStatistics demo_remote demo_masked ''AGB'' demo_geometry = Inr st
        \<and> mean st = 0 \<and> min_v st = 0 \<and> max_v st = 0 \<and> stdDev st = 0)"
proof -
  let ?r = "\<lambda>p::nat. if p = 0 then None else Some (120::real)"
  have c: "contributing ?r (region_pixels demo_remote demo_geometry) = [(1 / 2, 120)]"
    by (simp add: contributing_simps demo_remote_def)
  obtain st where st: "calculateImageStatistics demo_remote [''AGB'' \<mapsto> ?r] ''AGB'' demo_geometry
      = Inr st"
    using calculateImageStatistics_ok[of "[''AGB'' \<mapsto> ?r]" "''AGB''" ?r demo_remote demo_geometry]
    by (auto simp: demo_remote_def)
  from region_statistics_missing_pixels[OF st, of ?r] c
  have "mean st = 120 \<and> min_v st = 120 \<and> max_v st = 120 \<and> stdDev st = 0"
    by (simp add: weighted_mean_def weighted_stdDev_def)
  then have "st = \<lparr>mean = 120, min_v = 120, max_v = 120, stdDev = 0\<rparr>" by (cases st) simp
  with st have first: "calculateImageStatistics demo_remote [''AGB'' \<mapsto> ?r] ''AGB'' demo_geometry
     = Inr \<lparr>mean = 120, min_v = 120, max_v = 120, stdDev = 0\<rparr>" by simp
  have c0: "contributing (\<lambda>p. None) (region_pixels demo_remote demo_geometry) = []"
    by (simp add: contributing_simps demo_remote_def)
  obtain st0 where st0: "calculateImageStatistics demo_remote demo_masked ''AGB'' demo_geometry
      = Inr st0"
    using calculateImageStatistics_ok[of demo_masked "''AGB''" "\<lambda>p. None" demo_remote demo_geometry]
    by (auto simp: demo_remote_def demo_masked_def)
  from region_statistics_missing_pixels[OF st0, of "\<lambda>p. None"] c0
  have "mean st0 = 0 \<and> min_v st0 = 0 \<and> max_v st0 = 0 \<and> stdDev st0 = 0"
    by (simp add: demo_masked_def)
  with st0 first c show ?thesis by blast
qed

section \<open>The classify route\<close>

lemma exponent_bounds:
  "0 < x \<Longrightarrow> 2 powi exponent x \<le> x \<and> x < 2 powi (exponent x + 1)"
proof (induction x rule: exponent.induct)
  case (1 x)
  show ?case
  proof (cases "x < 1")
    case True
    with "1.prems" have e: "exponent x = exponent (2 * x) - 1" by (subst exponent.simps) simp
    from "1.IH"(1) "1.prems" True
    have "2 powi exponent (2 * x) \<le> 2 * x \<and> 2 * x < 2 powi (exponent (2 * x) + 1)" by simp
    then show ?thesis unfolding e by (simp add: power_int_diff power_int_add)
  next
    case False
    show ?thesis
    proof (cases "2 \<le> x")
      case True
      with False "1.prems" have e: "exponent x = exponent (x / 2) + 1"
        by (subst exponent.simps) simp
      from "1.IH"(2) "1.prems" False True
      have "2 powi exponent (x / 2) \<le> x / 2 \<and> x / 2 < 2 powi (exponent (x / 2) + 1)" by simp
      then show ?thesis unfolding e by (simp add: power_int_add)
    next
      case c: False
      with False "1.prems" have "exponent x = 0" by (subst exponent.simps) simp
      with False c show ?thesis by simp
    qed
  qed
qed

lemma exponent_eq:
  assumes "2 powi e \<le> x" "x < 2 powi (e + 1)"
  shows "exponent x = e"
proof -
  have pos: "0 < x"
  proof -
    have "(0::real) < 2 powi e" by (rule zero_less_power_int) simp
    with assms(1) show ?thesis by linarith
  qed
  from exponent_bounds[OF pos]
  have b: "2 powi exponent x \<le> x" "x < 2 powi (exponent x + 1)" by simp_all
  have "(2::real) powi e < 2 powi (exponent x + 1)" using assms(1) b(2) by linarith
  then have 1: "e < exponent x + 1"
    using power_int_increasing[of "exponent x + 1" e "2::real"]
    by (cases "e < exponent x + 1") auto
  have "(2::real) powi exponent x < 2 powi (e + 1)" using assms(2) b(1) by linarith
  then have 2: "exponent x < e + 1"
    using power_int_increasing[of "e + 1" "exponent x" "2::real"]
    by (cases "exponent x < e + 1") auto
  from 1 2 show ?thesis by linarith
qed

lemma exponent_log: "0 < x \<Longrightarrow> exponent x = \<lfloor>log 2 x\<rfloor>"
proof -
  assume pos: "0 < x"
  have p: "(2::real) powr real_of_int k = 2 powi k" for k
    by (rule powr_real_of_int') simp_all
  from exponent_bounds[OF pos] show ?thesis
    using floor_log_eq_powr_iff[OF pos, of 2 "exponent x"] unfolding p by simp
qed

lemma to_double_eq:
  assumes "2 powi e \<le> \<bar>x\<bar>" "\<bar>x\<bar> < 2 powi (e + 1)" "- 1022 \<le> e"
  shows "to_double x = of_int (round_half_even (x / 2 powi (e - 52))) * 2 powi (e - 52)"
proof -
  have "(0::real) < 2 powi e" by (rule zero_less_power_int) simp
  with assms(1) have "x \<noteq> 0" by linarith
  with exponent_eq[OF assms(1,2)] assms(3) show ?thesis by (simp add: to_double_def Let_def)
qed

lemma Math_round_close: "\<bar>Math_round x - x\<bar> \<le> 1 / 2"
  unfolding Math_round_def by linarith

lemma round_half_even_close: "\<bar>of_int (round_half_even x) - x\<bar> \<le> 1 / 2"
  unfolding round_half_even_def Let_def by (auto; linarith)

text \<open>The rounding to a double moves a number by at most half a unit in its last place.\<close>

lemma to_double_error: "\<bar>to_double x - x\<bar> \<le> \<bar>x\<bar> / 2 ^ 53 + 2 powi (- 1075)"
proof (cases "x = 0")
  case True
  then show ?thesis by (simp add: to_double_def)
next
  case False
  define e where "e = max (exponent \<bar>x\<bar>) (- 1022)"
  define ulp :: real where "ulp = 2 powi (e - 52)"
  have ulp: "0 < ulp" unfolding ulp_def by (rule zero_less_power_int) simp
  have td: "to_double x = of_int (round_half_even (x / ulp)) * ulp"
    using False by (simp add: to_double_def Let_def e_def ulp_def)
  have "\<bar>of_int (round_half_even (x / ulp)) - x / ulp\<bar> \<le> 1 / 2"
    by (rule round_half_even_close)
  then have "\<bar>of_int (round_half_even (x / ulp)) - x / ulp\<bar> * ulp \<le> 1 / 2 * ulp"
    using ulp by (intro mult_right_mono) simp_all
  moreover have "\<bar>of_int (round_half_even (x / ulp)) - x / ulp\<bar> * ulp
      = \<bar>of_int (round_half_even (x / ulp)) * ulp - x\<bar>"
  proof -
    have "\<bar>of_int (round_half_even (x / ulp)) - x / ulp\<bar> * ulp
      = \<bar>(of_int (round_half_even (x / ulp)) - x / ulp) * ulp\<bar>"
      using ulp by (simp add: abs_mult)
    also have "(of_int (round_half_even (x / ulp)) - x / ulp) * ulp
      = of_int (round_half_even (x / ulp)) * ulp - x"
      using ulp by (simp add: algebra_simps)
    finally show ?thesis .
  qed
  ultimately have err: "\<bar>to_double x - x\<bar> \<le> ulp / 2" unfolding td by simp
  have half: "ulp / 2 = 2 powi (e - 53)"
  proof -
    have "(2::real) powi (e - 52) = 2 powi (e - 53) * 2 powi 1"
      by (subst power_int_add[symmetric]) simp_all
    then show ?thesis unfolding ulp_def by simp
  qed
  show ?thesis
  proof (cases "- 1022 \<le> exponent \<bar>x\<bar>")
    case True
    then have e: "e = exponent \<bar>x\<bar>" by (simp add: e_def)
    from False have "0 < \<bar>x\<bar>" by simp
    from exponent_bounds[OF this] have "2 powi e \<le> \<bar>x\<bar>" unfolding e by simp
    moreover have "(2::real) powi (e - 53) = 2 powi e / 2 ^ 53"
      by (simp add: power_int_diff)
    moreover have "(0::real) \<le> 2 powi (- 1075)" by simp
    ultimately have "ulp / 2 \<le> \<bar>x\<bar> / 2 ^ 53 + 2 powi (- 1075)"
      unfolding half by (simp add: divide_right_mono add_increasing2)
    with err show ?thesis by linarith
  next
    case c: False
    then have "e = - 1022" by (simp add: e_def)
    then have "ulp / 2 = 2 powi (- 1075)" unfolding half by simp
    with err show ?thesis by (simp add: add_increasing)
  qed
qed

lemma subnormal_tiny: "(2::real) powi (- 1075) \<le> 1 / 10 ^ 9"
proof -
  have "(2::real) powi (- 1075) \<le> 2 powi (- 30)" by (rule power_int_increasing) simp_all
  also have "\<dots> \<le> 1 / 10 ^ 9" by (simp add: power_int_minus_divide)
  finally show ?thesis .
qed

lemma area_close:
  assumes "\<bar>s\<bar> \<le> 10 ^ 15"
  shows "\<bar>div_double (Math_round (mul_double (div_double s 10000) 100)) 100
          - Math_round s / 10000\<bar> \<le> 51 / 10000"
proof -
  define h where "h = div_double s 10000"
  define p where "p = mul_double h 100"
  define r where "r = Math_round p"
  define a where "a = div_double r 100"
  define d :: real where "d = 2 powi (- 1075)"
  have d: "0 \<le> d" "d \<le> 1 / 1000000000" unfolding d_def using subnormal_tiny by simp_all
  have eh: "\<bar>h - s / 10000\<bar> \<le> \<bar>s / 10000\<bar> / 2 ^ 53 + d"
    unfolding h_def div_double_def d_def by (rule to_double_error)
  have ep: "\<bar>p - h * 100\<bar> \<le> \<bar>h * 100\<bar> / 2 ^ 53 + d"
    unfolding p_def mul_double_def d_def by (rule to_double_error)
  have er: "\<bar>r - p\<bar> \<le> 1 / 2" unfolding r_def by (rule Math_round_close)
  have ea: "\<bar>a - r / 100\<bar> \<le> \<bar>r / 100\<bar> / 2 ^ 53 + d"
    unfolding a_def div_double_def d_def by (rule to_double_error)
  have em: "\<bar>Math_round s - s\<bar> \<le> 1 / 2" by (rule Math_round_close)
  have s1: "\<bar>s / 10000\<bar> \<le> 10 ^ 11" using assms by simp
  then have "\<bar>s / 10000\<bar> / 2 ^ 53 \<le> 10 ^ 11 / 2 ^ 53" by (rule divide_right_mono) simp
  with eh have eh': "\<bar>h - s / 10000\<bar> \<le> 10 ^ 11 / 2 ^ 53 + d" by linarith
  with s1 d have hb: "\<bar>h\<bar> \<le> 10 ^ 11 + 1" by (simp add: abs_le_iff)
  then have "\<bar>h * 100\<bar> \<le> 10 ^ 13 + 100" by (simp add: abs_mult)
  then have "\<bar>h * 100\<bar> / 2 ^ 53 \<le> (10 ^ 13 + 100) / 2 ^ 53" by (rule divide_right_mono) simp
  with ep have ep': "\<bar>p - h * 100\<bar> \<le> (10 ^ 13 + 100) / 2 ^ 53 + d" by linarith
  with hb d have pb: "\<bar>p\<bar> \<le> 10 ^ 13 + 101" by (simp add: abs_le_iff)
  with er have "\<bar>r\<bar> \<le> 10 ^ 13 + 200" by linarith
  then have rb: "\<bar>r / 100\<bar> \<le> 10 ^ 11 + 2" by simp
  then have "\<bar>r / 100\<bar> / 2 ^ 53 \<le> (10 ^ 11 + 2) / 2 ^ 53" by (rule divide_right_mono) simp
  with ea have ea': "\<bar>a - r / 100\<bar> \<le> (10 ^ 11 + 2) / 2 ^ 53 + d" by linarith
  have c: "(10 ^ 11 :: real) / 2 ^ 53 \<le> 12 / 1000000"
    "((10 ^ 13 + 100) :: real) / 2 ^ 53 \<le> 12 / 10000"
    "((10 ^ 11 + 2) :: real) / 2 ^ 53 \<le> 12 / 1000000"
    by simp_all
  from eh' c(1) have 1: "\<bar>h - s / 10000\<bar> \<le> 12 / 1000000 + d" by linarith
  from ep' c(2) have 2: "\<bar>p - h * 100\<bar> \<le> 12 / 10000 + d" by linarith
  from ea' c(3) have 3: "\<bar>a - r / 100\<bar> \<le> 12 / 1000000 + d" by linarith
  have 4: "\<bar>r / 100 - h\<bar> \<le> 1 / 200 + 12 / 1000000 + d / 100"
    using er 2 unfolding abs_le_iff by (elim conjE, intro conjI) linarith+
  have 5: "\<bar>a - h\<bar> \<le> 1 / 200 + 24 / 1000000 + 2 * d"
    using 3 4 d(1) unfolding abs_le_iff by (elim conjE, intro conjI) linarith+
  have 6: "\<bar>h - Math_round s / 10000\<bar> \<le> 1 / 20000 + 12 / 1000000 + d"
    using 1 em unfolding abs_le_iff by (elim conjE, intro conjI) linarith+
  from 5 6 d have "\<bar>a - Math_round s / 10000\<bar> \<le> 51 / 10000"
    unfolding abs_le_iff by (elim conjE, intro conjI) linarith+
  then show ?thesis unfolding a_def r_def p_def h_def .
qed

text \<open>The doubles of the sample areas: \<^verbatim>\<open>10050 / 10000\<close> is the double just below 1.005, and
  its product with 100 the double just below 100.5.\<close>

lemma demo_doubles:
  "div_double 10050 10000 = 1131529406376837 / 1125899906842624"
  "mul_double (1131529406376837 / 1125899906842624) 100 = 7072058789855231 / 70368744177664"
  "div_double 250000 10000 = 25"
  "mul_double 25 100 = 2500"
  "div_double (199 / 4) 10000 = 716973060677383 / 144115188075855872"
  "mul_double (716973060677383 / 144115188075855872) 100
     = 1120270407308411 / 2251799813685248"
  "div_double 100 100 = 1"
  "div_double 2500 100 = 25"
  "div_double 0 100 = 0"
proof -
  show "div_double 10050 10000 = 1131529406376837 / 1125899906842624"
    using to_double_eq[of 0 "10050 / 10000"]
    by (simp add: div_double_def round_half_even_def Let_def)
  show "mul_double (1131529406376837 / 1125899906842624) 100
      = 7072058789855231 / 70368744177664"
    using to_double_eq[of 6 "1131529406376837 / 1125899906842624 * 100"]
    by (simp add: mul_double_def round_half_even_def Let_def)
  show "div_double 250000 10000 = 25"
    using to_double_eq[of 4 "250000 / 10000"]
    by (simp add: div_double_def round_half_even_def Let_def)
  show "mul_double 25 100 = 2500"
    using to_double_eq[of 11 "25 * 100"]
    by (simp add: mul_double_def round_half_even_def Let_def)
  show "div_double (199 / 4) 10000 = 716973060677383 / 144115188075855872"
    using to_double_eq[of "- 8" "199 / 4 / 10000"]
    by (simp add: div_double_def round_half_even_def Let_def)
  show "mul_double (716973060677383 / 144115188075855872) 100
     = 1120270407308411 / 2251799813685248"
    using to_double_eq[of "- 2" "716973060677383 / 144115188075855872 * 100"]
    by (simp add: mul_double_def round_half_even_def Let_def)
  show "div_double 100 100 = 1"
    using to_double_eq[of 0 1]
    by (simp add: div_double_def round_half_even_def Let_def)
  show "div_double 2500 100 = 25"
    using to_double_eq[of 4 25]
    by (simp add: div_double_def round_half_even_def Let_def)
  show "div_double 0 100 = 0"
    by (simp add: div_double_def to_double_def)
qed

lemma demo_rounds:
  "Math_round (7072058789855231 / 70368744177664) = 100"
  "Math_round 2500 = 2500"
  "Math_round (1120270407308411 / 2251799813685248) = 0"
  "Math_round 10050 = 10050"
  "Math_round 250000 = 250000"
  "Math_round (199 / 4) = 50"
  by (simp_all add: Math_round_def)

lemma demo_entries:
  "area_entry DYNAMIC_WORLD_CLASSES \<lparr>class_value = 1, sum_value = 10050\<rparr> =
     \<lparr>class_id = 1, className = ''Trees'', areaHectares = 1, areaSquareMeters = 10050\<rparr>"
  "area_entry DYNAMIC_WORLD_CLASSES \<lparr>class_value = 6, sum_value = 250000\<rparr> =
     \<lparr>class_id = 6, className = ''Built'', areaHectares = 25, areaSquareMeters = 250000\<rparr>"
  "area_entry DYNAMIC_WORLD_CLASSES \<lparr>class_value = 4, sum_value = 199 / 4\<rparr> =
     \<lparr>class_id = 4, className = ''Crops'', areaHectares = 0, areaSquareMeters = 50\<rparr>"
  by (simp_all add: area_entry_def Let_def demo_doubles demo_rounds DYNAMIC_WORLD_CLASSES_def
      str_or_def)

lemma area_entry_fields:
  "class_id (area_entry classes g) = class_value g"
  "areaHectares (area_entry classes g)
     = div_double (Math_round (mul_double (div_double (sum_value g) 10000) 100)) 100"
  "areaSquareMeters (area_entry classes g) = Math_round (sum_value g)"
  by (simp_all add: area_entry_def Let_def)

lemma area_entry_close:
  assumes "\<bar>sum_value g\<bar> \<le> 10 ^ 15"
  shows "\<bar>areaHectares (area_entry classes g) - areaSquareMeters (area_entry classes g) / 10000\<bar>
     \<le> 51 / 10000"
  unfolding area_entry_fields by (rule area_close[OF assms])

lemma sorted_descending:
  "sorted_wrt (\<lambda>a b. f b \<le> (f a :: real)) (sort_key (\<lambda>a. - f a) xs)"
proof -
  have "sorted (map (\<lambda>a. - f a) (sort_key (\<lambda>a. - f a) xs))" by (rule sorted_sort_key)
  then show ?thesis by (simp add: sorted_map sorted_wrt_iff_nth_less)
qed

text \<open>
  Claim C9, as the specification states it, fails for a group of 49.75 square metres: its
  entry has \<open>areaHectares = 0\<close> and \<open>areaSquareMeters = 50\<close>, and 50 / 10000 is 0.005, which
  is not 0, and is 0.01 when rounded to two decimals.
\<close>

theorem area_fields_counterexample:
  "\<exists>entry. processAreaStatistics \<lparr>groups = Some [\<lparr>class_value = 4, sum_value = 199 / 4\<rparr>]\<rparr>
        DYNAMIC_WORLD_CLASSES = [entry]
     \<and> areaHectares entry = 0 \<and> areaSquareMeters entry = 50
     \<and> areaHectares entry \<noteq> areaSquareMeters entry / 10000
     \<and> areaHectares entry \<noteq> toFixed 2 (areaSquareMeters entry / 10000)"
  by (rule exI[of _ "\<lparr>class_id = 4, className = ''Crops'', areaHectares = 0,
        areaSquareMeters = 50\<rparr>"])
    (simp add: processAreaStatistics_def demo_entries toFixed_def)

text \<open>
  Claim C9, amended. The list \<^verbatim>\<open>processAreaStatistics\<close> returns is sorted by descending
  \<open>areaHectares\<close>, in the response of the classify route too; its entries are the entries
  of the groups, and the two area fields of an entry are both computed from the area of
  its group: \<open>areaHectares\<close> is that area divided by 10000 and rounded to two decimals
  (multiplied by 100, rounded to an integer and divided by 100, in the arithmetic of
  doubles), and \<open>areaSquareMeters\<close> is that area rounded to an integer. The two fields
  agree up to these roundings: for an area of at most \<open>10 ^ 15\<close> square metres,
  \<open>areaHectares\<close> and \<open>areaSquareMeters / 10000\<close> differ by at most 0.0051.
\<close>

theorem area_statistics_sorted:
  "sorted_wrt (\<lambda>a b. areaHectares b \<le> areaHectares a) (processAreaStatistics stats classes)
   \<and> mset (processAreaStatistics stats classes)
       = mset (map (area_entry classes) (case groups stats of None \<Rightarrow> [] | Some gs \<Rightarrow> gs))
   \<and> (\<forall>g. class_id (area_entry classes g) = class_value g
         \<and> areaHectares (area_entry classes g)
             = div_double (Math_round (mul_double (div_double (sum_value g) 10000) 100)) 100
         \<and> areaSquareMeters (area_entry classes g) = Math_round (sum_value g)
         \<and> (\<bar>sum_value g\<bar> \<le> 10 ^ 15 \<longrightarrow>
               \<bar>areaHectares (area_entry classes g)
                  - areaSquareMeters (area_entry classes g) / 10000\<bar> \<le> 51 / 10000))
   \<and> (\<forall>env body resp. POST_classify env body = Ok resp \<longrightarrow>
         sorted_wrt (\<lambda>a b. areaHectares b \<le> areaHectares a) (areaStatistics resp))"
proof -
  have s: "sorted_wrt (\<lambda>a b. areaHectares b \<le> areaHectares a) (processAreaStatistics st cl)"
    for st cl
    by (cases "groups st") (simp_all add: processAreaStatistics_def sorted_descending)
  have m: "mset (processAreaStatistics stats classes)
       = mset (map (area_entry classes) (case groups stats of None \<Rightarrow> [] | Some gs \<Rightarrow> gs))"
    by (cases "groups stats") (simp_all add: processAreaStatistics_def)
  have p: "sorted_wrt (\<lambda>a b. areaHectares b \<le> areaHectares a) (areaStatistics resp)"
    if "POST_classify env body = Ok resp" for env body resp
  proof -
    from that obtain st cl where "areaStatistics resp = processAreaStatistics st cl"
      by (auto simp: POST_classify_def Let_def split: option.splits sum.splits prod.splits if_splits)
    with s show ?thesis by simp
  qed
  from s m p area_entry_fields area_entry_close show ?thesis by blast
qed

lemma demo_processed:
  "processAreaStatistics demo_area_stats DYNAMIC_WORLD_CLASSES =
     [\<lparr>class_id = 6, className = ''Built'', areaHectares = 25, areaSquareMeters = 250000\<rparr>,
      \<lparr>class_id = 1, className = ''Trees'', areaHectares = 1, areaSquareMeters = 10050\<rparr>,
      \<lparr>class_id = 4, className = ''Crops'', areaHectares = 0, areaSquareMeters = 50\<rparr>]"
  by (simp add: processAreaStatistics_def demo_area_stats_def demo_entries)

lemma demo_dynamicWorld_loop:
  "dynamicWorld_loop demo_classify_env demo_geometry ''2024-01-01'' 12 1 =
     Inr (DynamicWorldMode ''2023-12-01'' ''2024-01-01'', ''2023-12-01'', 1)"
  by (subst dynamicWorld_loop.simps)
    (simp add: calculateAreaStatistics_def demo_classify_env_def demo_area_stats_def Let_def)

lemma demo_classify:
  "POST_classify demo_classify_env demo_classify_body_dates =
     Ok \<lparr>classification_data =
           \<lparr>source = ''Dynamic World AI Classifier'',
            model = ''Deep Learning CNN (Convolutional Neural Network)'',
            year = None, classificationDate = Some ''2024-01-01'', temporalWindow = Some 1,
            dateRange = Some (''2023-12-01'', ''2024-01-01''),
            classes_of = DYNAMIC_WORLD_CLASSES\<rparr>,
         areaStatistics = processAreaStatistics demo_area_stats DYNAMIC_WORLD_CLASSES,
         imageUrl = ''https://tiles/map/tiles/{z}/{x}/{y}'',
         confidence = Some (''Dynamic World uses AI to provide pixel-level confidence scores'',
                            ''Temporal ensemble of deep learning predictions''),
         aiPowered = True\<rparr>"
proof -
  have a: "calculateAreaStatistics demo_classify_env
      (DynamicWorldMode ''2023-12-01'' ''2024-01-01'') demo_geometry = Inr (Some demo_area_stats)"
    by (simp add: calculateAreaStatistics_def demo_classify_env_def)
  have u: "getImageUrl demo_classify_env (DynamicWorldMode ''2023-12-01'' ''2024-01-01'')
      demo_geometry dynamicWorld_vis = Inr ''https://tiles/map/tiles/{z}/{x}/{y}''"
    by (simp add: getImageUrl_def demo_classify_env_def str_or_def strip_trailing_slash_def Let_def)
  from demo_dynamicWorld_loop a u show ?thesis
    by (simp add: POST_classify_def demo_classify_body_dates_def truthy_def Let_def)
qed

theorem area_statistics_sorted_witness:
  "processAreaStatistics demo_area_stats DYNAMIC_WORLD_CLASSES =
     [\<lparr>class_id = 6, className = ''Built'', areaHectares = 25, areaSquareMeters = 250000\<rparr>,
      \<lparr>class_id = 1, className = ''Trees'', areaHectares = 1, areaSquareMeters = 10050\<rparr>,
      \<lparr>class_id = 4, className = ''Crops'', areaHectares = 0, areaSquareMeters = 50\<rparr>]
   \<and> sorted_wrt (\<lambda>a b. areaHectares b \<le> areaHectares a)
        (processAreaStatistics demo_area_stats DYNAMIC_WORLD_CLASSES)
   \<and> (\<exists>resp. POST_classify demo_classify_env demo_classify_body_dates = Ok resp
        \<and> areaStatistics resp = processAreaStatistics demo_area_stats DYNAMIC_WORLD_CLASSES
        \<and> sorted_wrt (\<lambda>a b. areaHectares b \<le> areaHectares a) (areaStatistics resp))
   \<and> \<bar>sum_value \<lparr>class_value = 4, sum_value = 199 / 4\<rparr>\<bar> \<le> 10 ^ 15
   \<and> \<bar>areaHectares (area_entry DYNAMIC_WORLD_CLASSES \<lparr>class_value = 4, sum_value = 199 / 4\<rparr>)
        - areaSquareMeters (area_entry DYNAMIC_WORLD_CLASSES
            \<lparr>class_value = 4, sum_value = 199 / 4\<rparr>) / 10000\<bar> \<le> 51 / 10000"
proof -
  note t = area_statistics_sorted[of demo_area_stats DYNAMIC_WORLD_CLASSES]
  have b: "\<bar>sum_value \<lparr>class_value = 4, sum_value = 199 / 4\<rparr>\<bar> \<le> 10 ^ 15" by simp
  from t have "\<forall>g. \<bar>sum_value g\<bar> \<le> 10 ^ 15 \<longrightarrow>
               \<bar>areaHectares (area_entry DYNAMIC_WORLD_CLASSES g)
                  - areaSquareMeters (area_entry DYNAMIC_WORLD_CLASSES g) / 10000\<bar> \<le> 51 / 10000"
    by blast
  with b have 3: "\<bar>areaHectares (area_entry DYNAMIC_WORLD_CLASSES
          \<lparr>class_value = 4, sum_value = 199 / 4\<rparr>)
        - areaSquareMeters (area_entry DYNAMIC_WORLD_CLASSES
            \<lparr>class_value = 4, sum_value = 199 / 4\<rparr>) / 10000\<bar> \<le> 51 / 10000"
    by blast
  from t have 1: "sorted_wrt (\<lambda>a b. areaHectares b \<le> areaHectares a)
        (processAreaStatistics demo_area_stats DYNAMIC_WORLD_CLASSES)" by (elim conjE)
  from t have 2: "\<forall>env body resp. POST_classify env body = Ok resp \<longrightarrow>
         sorted_wrt (\<lambda>a b. areaHectares b \<le> areaHectares a) (areaStatistics resp)"
    by (elim conjE)
  obtain resp where r: "POST_classify demo_classify_env demo_classify_body_dates = Ok resp"
    "areaStatistics resp = processAreaStatistics demo_area_stats DYNAMIC_WORLD_CLASSES"
    using demo_classify by simp
  from 2 r(1) have "sorted_wrt (\<lambda>a b. areaHectares b \<le> areaHectares a) (areaStatistics resp)"
    by blast
  with r have 4: "\<exists>resp. POST_classify demo_classify_env demo_classify_body_dates = Ok resp
        \<and> areaStatistics resp = processAreaStatistics demo_area_stats DYNAMIC_WORLD_CLASSES
        \<and> sorted_wrt (\<lambda>a b. areaHectares b \<le> areaHectares a) (areaStatistics resp)"
    by blast
  from demo_processed 1 4 b 3 show ?thesis by (intro conjI)
qed

text \<open>
  Claim C10. When \<open>useDynamicWorld\<close> is true or left out and \<open>startDate\<close> or \<open>endDate\<close>
  is missing, the classify route takes the ESA WorldCover branch and makes no Dynamic World
  query. The claim has the endpoint classify with ESA WorldCover there and answer with
  \<open>aiPowered = true\<close>. The code does not get that far: the first statement of the branch
  calls \<^verbatim>\<open>getLandCover\<close>, which the library does not export, so the request ends in a
  \<^verbatim>\<open>TypeError\<close> and the endpoint answers with the status 500, without a classification and
  without an \<open>aiPowered\<close> field, whatever the platform would answer.
\<close>

theorem worldcover_branch_fails:
  assumes "c_geometry body = Some g"
    and "c_useDynamicWorld body = None \<or> c_useDynamicWorld body = Some True"
    and "\<not> truthy (c_startDate body) \<or> \<not> truthy (c_endDate body)"
  shows "POST_classify env body = ServerError TypeError"
proof -
  have u: "(case c_useDynamicWorld body of None \<Rightarrow> True | Some u \<Rightarrow> u) = True"
    using assms(2) by auto
  have c: "(True \<and> truthy (c_startDate body) \<and> truthy (c_endDate body)) = False"
    using assms(3) by simp
  show ?thesis
    unfolding POST_classify_def Let_def u c assms(1)
    by (simp add: getLandCover_def)
qed

theorem worldcover_branch_fails_witness:
  "c_geometry demo_classify_body = Some demo_geometry
   \<and> c_useDynamicWorld demo_classify_body = None \<and> c_startDate demo_classify_body = None
   \<and> POST_classify demo_classify_env demo_classify_body = ServerError TypeError"
proof -
  have h: "c_geometry demo_classify_body = Some demo_geometry"
    "c_useDynamicWorld demo_classify_body = None \<or> c_useDynamicWorld demo_classify_body = Some True"
    "\<not> truthy (c_startDate demo_classify_body) \<or> \<not> truthy (c_endDate demo_classify_body)"
    by (simp_all add: demo_classify_body_def truthy_def)
  from worldcover_branch_fails[OF h, of demo_classify_env]
  show ?thesis by (simp add: demo_classify_body_def)
qed

end
